theory Spec2Isabelle
  imports Complex_Main "HOL-Library.Word" "HOL-Library.Sublist"
begin

section \<open>The utest harness (utest/utest.h)\<close>

text \<open>
  The header is a set of macros that expand inside one \<^verbatim>\<open>main\<close> function and act on five
  file-level variables. The model keeps those variables in a record, threads it through the
  macros and writes each macro as a function of the same name. The arguments of a macro are
  C++ expressions: each is kept as its source text (for \<^verbatim>\<open>UTEST_STRINGIFY\<close>) together with
  the computation it denotes, which runs on the store of the code under test and may throw.
\<close>

subsection \<open>Exceptions and computations\<close>

text \<open>
  A thrown object: \<open>ex_types\<close> lists the class of the object followed by its public base
  classes, which is what a handler \<^verbatim>\<open>catch (T&)\<close> is matched against; \<open>ex_what\<close> is the text
  the object carries (\<^verbatim>\<open>what()\<close> for a \<^verbatim>\<open>std::exception\<close>).
\<close>

datatype exn = Exn (ex_types: "string list") (ex_what: string)

text \<open>A computation on the store \<open>'s\<close> of the code under test: it throws (\<open>Inl\<close>) or returns.\<close>

type_synonym ('s, 'a) comp = "'s \<Rightarrow> (exn + 'a) \<times> 's"

text \<open>A macro argument: the tokens as written, and what they compute.\<close>

record ('s, 'a) arg =
  arg_text :: string
  arg_eval :: "('s, 'a) comp"

text \<open>\<^verbatim>\<open>__FILE__\<close> and \<^verbatim>\<open>__LINE__\<close> at the place a macro is used.\<close>

record loc =
  loc_file :: string
  loc_line :: nat

subsection \<open>Printing numbers\<close>

text \<open>\<^verbatim>\<open>std::cout << n\<close> for an unsigned integer: its decimal digits.\<close>

fun show_nat :: "nat \<Rightarrow> string" where
  "show_nat n =
     (if n < 10 then [''0123456789'' ! n]
      else show_nat (n div 10) @ [''0123456789'' ! (n mod 10)])"

declare show_nat.simps [simp del]

subsection \<open>The file-level variables\<close>

text \<open>
  \<^verbatim>\<open>std::size_t\<close> is taken as 64 bits wide (LP64); \<^verbatim>\<open>++\<close> on it wraps around. \<open>cout\<close> is the
  text written so far, one entry for each line closed by \<^verbatim>\<open>std::endl\<close>; \<open>store\<close> is the state
  of the code under test.
\<close>

type_synonym size_t = "64 word"

record 's utest =
  utest_case_name :: string
  utest_module_name :: string
  utest_n_cases :: size_t
  utest_n_checks :: size_t
  utest_n_failures :: size_t
  cout :: "string list"
  store :: 's

definition utest_init :: "'s \<Rightarrow> 's utest" where
  "utest_init u =
     \<lparr>utest_case_name = [], utest_module_name = [], utest_n_cases = 0, utest_n_checks = 0,
      utest_n_failures = 0, cout = [], store = u\<rparr>"

datatype exit_status = EXIT_SUCCESS | EXIT_FAILURE

text \<open>
  What a statement does: control goes on to the next statement, the process ends through
  \<^verbatim>\<open>exit\<close>, or an exception leaves the statement.
\<close>

datatype 's result =
    Continue "'s utest"
  | Exit exit_status "'s utest"
  | Raise exn "'s utest"

fun state_of :: "'s result \<Rightarrow> 's utest" where
  "state_of (Continue s) = s"
| "state_of (Exit c s) = s"
| "state_of (Raise e s) = s"

subsection \<open>check\_throw\<close>

datatype exception_status = none | expected | unexpected

text \<open>
  \<^verbatim>\<open>check_throw<texception>(op)\<close>: \<open>texception\<close> is the name of the class of the first handler.
  The function is an ordinary C++ function, so its model has the type of a computation.
\<close>

definition check_throw :: "string \<Rightarrow> ('s, 'a) comp \<Rightarrow> ('s, exception_status) comp" where
  "check_throw texception op u =
     (case op u of
        (Inr _, u') \<Rightarrow> (Inr none, u')
      | (Inl e, u') \<Rightarrow>
          if texception \<in> set (ex_types e) then (Inr expected, u')
          else (Inr unexpected, u'))"

subsection \<open>Module and case macros\<close>

definition UTEST_BEGIN_MODULE :: "string \<Rightarrow> 's utest \<Rightarrow> 's result" where
  "UTEST_BEGIN_MODULE name s = Continue (s\<lparr>utest_module_name := name\<rparr>)"

definition UTEST_CASE :: "string \<Rightarrow> 's utest \<Rightarrow> 's result" where
  "UTEST_CASE name s =
     (let s1 = s\<lparr>utest_n_cases := utest_n_cases s + 1\<rparr>;
          s2 = s1\<lparr>utest_case_name := name\<rparr>
      in Continue (s2\<lparr>cout := cout s2 @
           [''running test case ['' @ utest_module_name s2 @ ''/'' @ utest_case_name s2 @
            ''] ...'']\<rparr>))"

text \<open>The block of \<^verbatim>\<open>UTEST_END_MODULE\<close> that is still inside the \<^verbatim>\<open>try\<close>.\<close>

definition UTEST_END_MODULE :: "'s utest \<Rightarrow> 's result" where
  "UTEST_END_MODULE s =
     (if utest_n_failures s > 0 then
        Exit EXIT_FAILURE (s\<lparr>cout := cout s @
          [''  failed with '' @ show_nat (unat (utest_n_failures s)) @ '' errors in '' @
           show_nat (unat (utest_n_checks s)) @ '' check'' @
           (if utest_n_checks s > 0 then ''s'' else '''') @ ''!'']\<rparr>)
      else
        Exit EXIT_SUCCESS (s\<lparr>cout := cout s @
          [''  no errors detected in '' @ show_nat (unat (utest_n_checks s)) @ '' check'' @
           (if utest_n_checks s > 0 then ''s'' else '''') @ ''.'']\<rparr>))"

subsection \<open>Failure handling\<close>

definition UTEST_HANDLE_CRITICAL :: "bool \<Rightarrow> 's utest \<Rightarrow> 's result" where
  "UTEST_HANDLE_CRITICAL critical s = (if critical then Exit EXIT_FAILURE s else Continue s)"

text \<open>
  \<^verbatim>\<open>UTEST_HANDLE_FAILURE()\<close> opens an output statement that the using macro completes;
  \<open>rest\<close> is the text that macro appends before \<^verbatim>\<open>std::endl\<close>.
\<close>

definition UTEST_HANDLE_FAILURE :: "loc \<Rightarrow> string \<Rightarrow> 's utest \<Rightarrow> 's utest" where
  "UTEST_HANDLE_FAILURE l rest s =
     (let s1 = s\<lparr>utest_n_failures := utest_n_failures s + 1\<rparr>
      in s1\<lparr>cout := cout s1 @
           [loc_file l @ '':'' @ show_nat (loc_line l) @ '': ['' @ utest_module_name s1 @
            ''/'' @ utest_case_name s1 @ rest]\<rparr>)"

subsection \<open>Boolean checks\<close>

definition UTEST_EVALUATE :: "('s, bool) arg \<Rightarrow> bool \<Rightarrow> loc \<Rightarrow> 's utest \<Rightarrow> 's result" where
  "UTEST_EVALUATE check critical l s =
     (let s1 = s\<lparr>utest_n_checks := utest_n_checks s + 1\<rparr> in
      case arg_eval check (store s1) of
        (Inl e, u) \<Rightarrow> Raise e (s1\<lparr>store := u\<rparr>)
      | (Inr b, u) \<Rightarrow>
          let s2 = s1\<lparr>store := u\<rparr> in
          if \<not> b then
            UTEST_HANDLE_CRITICAL critical
              (UTEST_HANDLE_FAILURE l ('']: check {'' @ arg_text check @ ''} failed!'') s2)
          else Continue s2)"

definition UTEST_CHECK :: "('s, bool) arg \<Rightarrow> loc \<Rightarrow> 's utest \<Rightarrow> 's result" where
  "UTEST_CHECK check = UTEST_EVALUATE check False"

definition UTEST_REQUIRE :: "('s, bool) arg \<Rightarrow> loc \<Rightarrow> 's utest \<Rightarrow> 's result" where
  "UTEST_REQUIRE check = UTEST_EVALUATE check True"

subsection \<open>Exception checks\<close>

text \<open>The lambda \<^verbatim>\<open>[&] () { (void)(call); }\<close>: the call is run and its value dropped.\<close>

definition lambda_void :: "('s, 'a) arg \<Rightarrow> ('s, unit) comp" where
  "lambda_void call u =
     (case arg_eval call u of (Inl e, u') \<Rightarrow> (Inl e, u') | (Inr _, u') \<Rightarrow> (Inr (), u'))"

text \<open>
  In the \<^verbatim>\<open>switch\<close> of \<^verbatim>\<open>UTEST_THROW\<close> the case \<^verbatim>\<open>none\<close> has no \<^verbatim>\<open>break\<close> and falls into the
  case \<^verbatim>\<open>expected\<close>, which is only a \<^verbatim>\<open>break\<close>.
\<close>

definition UTEST_THROW ::
  "('s, 'a) arg \<Rightarrow> string \<Rightarrow> bool \<Rightarrow> loc \<Rightarrow> 's utest \<Rightarrow> 's result" where
  "UTEST_THROW call exception critical l s =
     (let s1 = s\<lparr>utest_n_checks := utest_n_checks s + 1\<rparr> in
      case check_throw exception (lambda_void call) (store s1) of
        (Inl e, u) \<Rightarrow> Raise e (s1\<lparr>store := u\<rparr>)
      | (Inr st, u) \<Rightarrow>
          let s2 = s1\<lparr>store := u\<rparr> in
          (case st of
             none \<Rightarrow>
               UTEST_HANDLE_CRITICAL critical
                 (UTEST_HANDLE_FAILURE l
                    ('']: call {'' @ arg_text call @ ''} does not throw!'') s2)
           | expected \<Rightarrow> Continue s2
           | unexpected \<Rightarrow>
               UTEST_HANDLE_CRITICAL critical
                 (UTEST_HANDLE_FAILURE l
                    ('']: call {'' @ arg_text call @ ''} does not throw {'' @ exception @
                     ''}!'') s2)))"

definition UTEST_CHECK_THROW ::
  "('s, 'a) arg \<Rightarrow> string \<Rightarrow> loc \<Rightarrow> 's utest \<Rightarrow> 's result" where
  "UTEST_CHECK_THROW call exception = UTEST_THROW call exception False"

definition UTEST_REQUIRE_THROW ::
  "('s, 'a) arg \<Rightarrow> string \<Rightarrow> loc \<Rightarrow> 's utest \<Rightarrow> 's result" where
  "UTEST_REQUIRE_THROW call exception = UTEST_THROW call exception True"

definition UTEST_NOTHROW :: "('s, 'a) arg \<Rightarrow> bool \<Rightarrow> loc \<Rightarrow> 's utest \<Rightarrow> 's result" where
  "UTEST_NOTHROW call critical l s =
     (let s1 = s\<lparr>utest_n_checks := utest_n_checks s + 1\<rparr> in
      case check_throw ''std::exception'' (lambda_void call) (store s1) of
        (Inl e, u) \<Rightarrow> Raise e (s1\<lparr>store := u\<rparr>)
      | (Inr st, u) \<Rightarrow>
          let s2 = s1\<lparr>store := u\<rparr> in
          (case st of
             none \<Rightarrow> Continue s2
           | expected \<Rightarrow>
               UTEST_HANDLE_CRITICAL critical
                 (UTEST_HANDLE_FAILURE l ('']: call {'' @ arg_text call @ ''} throws!'') s2)
           | unexpected \<Rightarrow>
               UTEST_HANDLE_CRITICAL critical
                 (UTEST_HANDLE_FAILURE l ('']: call {'' @ arg_text call @ ''} throws!'') s2)))"

definition UTEST_CHECK_NOTHROW :: "('s, 'a) arg \<Rightarrow> loc \<Rightarrow> 's utest \<Rightarrow> 's result" where
  "UTEST_CHECK_NOTHROW call = UTEST_NOTHROW call False"

definition UTEST_REQUIRE_NOTHROW :: "('s, 'a) arg \<Rightarrow> loc \<Rightarrow> 's utest \<Rightarrow> 's result" where
  "UTEST_REQUIRE_NOTHROW call = UTEST_NOTHROW call True"

subsection \<open>Relational checks\<close>

text \<open>
  The operators that the macros apply to the operands are those of the operands' C++ type.
  They are not part of the header, so they are a parameter of the model: the six comparisons,
  \<^verbatim>\<open>operator<<\<close> to the output stream, and the arithmetic used by the approximate check
  (\<open>t_one\<close> is the literal \<^verbatim>\<open>1\<close> converted to the type).
\<close>

record 'v cxx_type =
  t_eq :: "'v \<Rightarrow> 'v \<Rightarrow> bool"
  t_ne :: "'v \<Rightarrow> 'v \<Rightarrow> bool"
  t_lt :: "'v \<Rightarrow> 'v \<Rightarrow> bool"
  t_le :: "'v \<Rightarrow> 'v \<Rightarrow> bool"
  t_gt :: "'v \<Rightarrow> 'v \<Rightarrow> bool"
  t_ge :: "'v \<Rightarrow> 'v \<Rightarrow> bool"
  t_put :: "'v \<Rightarrow> string"
  t_fabs :: "'v \<Rightarrow> 'v"
  t_sub :: "'v \<Rightarrow> 'v \<Rightarrow> 'v"
  t_add :: "'v \<Rightarrow> 'v \<Rightarrow> 'v"
  t_mul :: "'v \<Rightarrow> 'v \<Rightarrow> 'v"
  t_one :: 'v

text \<open>The operator token passed to \<^verbatim>\<open>UTEST_EVALUATE_BINARY_OP\<close>.\<close>

datatype relop = Op_eq | Op_ne | Op_lt | Op_le | Op_gt | Op_ge

fun op_text :: "relop \<Rightarrow> string" where
  "op_text Op_eq = ''==''"
| "op_text Op_ne = ''!=''"
| "op_text Op_lt = ''<''"
| "op_text Op_le = ''<=''"
| "op_text Op_gt = ''>''"
| "op_text Op_ge = ''>=''"

fun apply_op :: "'v cxx_type \<Rightarrow> relop \<Rightarrow> 'v \<Rightarrow> 'v \<Rightarrow> bool" where
  "apply_op T Op_eq a b = t_eq T a b"
| "apply_op T Op_ne a b = t_ne T a b"
| "apply_op T Op_lt a b = t_lt T a b"
| "apply_op T Op_le a b = t_le T a b"
| "apply_op T Op_gt a b = t_gt T a b"
| "apply_op T Op_ge a b = t_ge T a b"

definition UTEST_EVALUATE_BINARY_OP ::
  "'v cxx_type \<Rightarrow> ('s, 'v) arg \<Rightarrow> ('s, 'v) arg \<Rightarrow> relop \<Rightarrow> bool \<Rightarrow> loc \<Rightarrow>
   's utest \<Rightarrow> 's result" where
  "UTEST_EVALUATE_BINARY_OP T left right op critical l s =
     (let s1 = s\<lparr>utest_n_checks := utest_n_checks s + 1\<rparr> in
      case arg_eval left (store s1) of
        (Inl e, u) \<Rightarrow> Raise e (s1\<lparr>store := u\<rparr>)
      | (Inr res_left, u1) \<Rightarrow>
          (case arg_eval right u1 of
             (Inl e, u) \<Rightarrow> Raise e (s1\<lparr>store := u\<rparr>)
           | (Inr res_right, u2) \<Rightarrow>
               let s2 = s1\<lparr>store := u2\<rparr> in
               if \<not> apply_op T op res_left res_right then
                 UTEST_HANDLE_CRITICAL critical
                   (UTEST_HANDLE_FAILURE l
                      ('']: check {'' @ arg_text left @ '' '' @ op_text op @ '' '' @
                       arg_text right @ ''} failed {'' @ t_put T res_left @ '' '' @
                       op_text op @ '' '' @ t_put T res_right @ ''}!'') s2)
               else Continue s2))"

definition UTEST_EVALUATE_EQUAL ::
  "'v cxx_type \<Rightarrow> ('s, 'v) arg \<Rightarrow> ('s, 'v) arg \<Rightarrow> bool \<Rightarrow> loc \<Rightarrow> 's utest \<Rightarrow> 's result" where
  "UTEST_EVALUATE_EQUAL T left right critical = UTEST_EVALUATE_BINARY_OP T left right Op_eq critical"

definition UTEST_EVALUATE_NOT_EQUAL ::
  "'v cxx_type \<Rightarrow> ('s, 'v) arg \<Rightarrow> ('s, 'v) arg \<Rightarrow> bool \<Rightarrow> loc \<Rightarrow> 's utest \<Rightarrow> 's result" where
  "UTEST_EVALUATE_NOT_EQUAL T left right critical =
     UTEST_EVALUATE_BINARY_OP T left right Op_ne critical"

definition UTEST_EVALUATE_LESS ::
  "'v cxx_type \<Rightarrow> ('s, 'v) arg \<Rightarrow> ('s, 'v) arg \<Rightarrow> bool \<Rightarrow> loc \<Rightarrow> 's utest \<Rightarrow> 's result" where
  "UTEST_EVALUATE_LESS T left right critical = UTEST_EVALUATE_BINARY_OP T left right Op_lt critical"

definition UTEST_EVALUATE_LESS_EQUAL ::
  "'v cxx_type \<Rightarrow> ('s, 'v) arg \<Rightarrow> ('s, 'v) arg \<Rightarrow> bool \<Rightarrow> loc \<Rightarrow> 's utest \<Rightarrow> 's result" where
  "UTEST_EVALUATE_LESS_EQUAL T left right critical =
     UTEST_EVALUATE_BINARY_OP T left right Op_le critical"

definition UTEST_EVALUATE_GREATER ::
  "'v cxx_type \<Rightarrow> ('s, 'v) arg \<Rightarrow> ('s, 'v) arg \<Rightarrow> bool \<Rightarrow> loc \<Rightarrow> 's utest \<Rightarrow> 's result" where
  "UTEST_EVALUATE_GREATER T left right critical =
     UTEST_EVALUATE_BINARY_OP T left right Op_gt critical"

definition UTEST_EVALUATE_GREATER_EQUAL ::
  "'v cxx_type \<Rightarrow> ('s, 'v) arg \<Rightarrow> ('s, 'v) arg \<Rightarrow> bool \<Rightarrow> loc \<Rightarrow> 's utest \<Rightarrow> 's result" where
  "UTEST_EVALUATE_GREATER_EQUAL T left right critical =
     UTEST_EVALUATE_BINARY_OP T left right Op_ge critical"

definition UTEST_CHECK_EQUAL ::
  "'v cxx_type \<Rightarrow> ('s, 'v) arg \<Rightarrow> ('s, 'v) arg \<Rightarrow> loc \<Rightarrow> 's utest \<Rightarrow> 's result" where
  "UTEST_CHECK_EQUAL T left right = UTEST_EVALUATE_EQUAL T left right False"

definition UTEST_REQUIRE_EQUAL ::
  "'v cxx_type \<Rightarrow> ('s, 'v) arg \<Rightarrow> ('s, 'v) arg \<Rightarrow> loc \<Rightarrow> 's utest \<Rightarrow> 's result" where
  "UTEST_REQUIRE_EQUAL T left right = UTEST_EVALUATE_EQUAL T left right True"

subsection \<open>Approximate equality\<close>

text \<open>
  \<^verbatim>\<open>UTEST_EVALUATE_CLOSE\<close> passes two compound expressions to \<^verbatim>\<open>UTEST_EVALUATE_LESS\<close>, built
  from the tokens of its arguments. The builders below give the text and the computation of
  a parenthesised expression, a literal, a call of a one-argument function and a binary
  operator. C++ does not fix the order in which the operands of \<^verbatim>\<open>-\<close>, \<^verbatim>\<open>+\<close> and \<^verbatim>\<open>*\<close> are
  evaluated; the model evaluates them from left to right.
\<close>

definition cxx_paren :: "('s, 'v) arg \<Rightarrow> ('s, 'v) arg" where
  "cxx_paren a = \<lparr>arg_text = ''('' @ arg_text a @ '')'', arg_eval = arg_eval a\<rparr>"

definition cxx_lit :: "string \<Rightarrow> 'v \<Rightarrow> ('s, 'v) arg" where
  "cxx_lit t v = \<lparr>arg_text = t, arg_eval = (\<lambda>u. (Inr v, u))\<rparr>"

definition cxx_call :: "string \<Rightarrow> ('v \<Rightarrow> 'v) \<Rightarrow> ('s, 'v) arg \<Rightarrow> ('s, 'v) arg" where
  "cxx_call name f a =
     \<lparr>arg_text = name @ ''('' @ arg_text a @ '')'',
      arg_eval = (\<lambda>u. case arg_eval a u of
                         (Inl e, u') \<Rightarrow> (Inl e, u')
                       | (Inr x, u') \<Rightarrow> (Inr (f x), u'))\<rparr>"

definition cxx_binary ::
  "string \<Rightarrow> ('v \<Rightarrow> 'v \<Rightarrow> 'v) \<Rightarrow> ('s, 'v) arg \<Rightarrow> ('s, 'v) arg \<Rightarrow> ('s, 'v) arg" where
  "cxx_binary name f a b =
     \<lparr>arg_text = arg_text a @ '' '' @ name @ '' '' @ arg_text b,
      arg_eval = (\<lambda>u. case arg_eval a u of
                         (Inl e, u') \<Rightarrow> (Inl e, u')
                       | (Inr x, u1) \<Rightarrow>
                           (case arg_eval b u1 of
                              (Inl e, u') \<Rightarrow> (Inl e, u')
                            | (Inr y, u2) \<Rightarrow> (Inr (f x y), u2)))\<rparr>"

text \<open>
  The macro writes \<^verbatim>\<open>(left)\<close> and \<^verbatim>\<open>(right)\<close> but \<^verbatim>\<open>epsilon * (...)\<close>: the tokens of
  \<^verbatim>\<open>epsilon\<close> are followed by \<^verbatim>\<open>*\<close> without parentheses around them, so how the product
  parses depends on them. \<open>Tight a\<close> is an argument that stays one operand of the product:
  a literal, a name, a call, a parenthesised expression, a product. \<open>Loose a name f b\<close> is
  an argument \<^verbatim>\<open>a name b\<close> whose last operator \<open>name\<close>, with meaning \<open>f\<close>, binds less tightly
  than \<^verbatim>\<open>*\<close> (the additive operators \<^verbatim>\<open>+\<close> and \<^verbatim>\<open>-\<close>): then \<^verbatim>\<open>*\<close> takes only \<open>b\<close> as its left
  operand.
\<close>

datatype ('s, 'v) bare_arg =
    Tight "('s, 'v) arg"
  | Loose "('s, 'v) arg" string "'v \<Rightarrow> 'v \<Rightarrow> 'v" "('s, 'v) arg"

text \<open>The expression that the argument is where the caller writes it.\<close>

fun bare_value :: "('s, 'v) bare_arg \<Rightarrow> ('s, 'v) arg" where
  "bare_value (Tight a) = a"
| "bare_value (Loose a name f b) = cxx_binary name f a b"

text \<open>The expression that the tokens of the argument, \<^verbatim>\<open>*\<close> and \<open>rhs\<close> parse to.\<close>

fun bare_times :: "'v cxx_type \<Rightarrow> ('s, 'v) bare_arg \<Rightarrow> ('s, 'v) arg \<Rightarrow> ('s, 'v) arg" where
  "bare_times T (Tight a) rhs = cxx_binary ''*'' (t_mul T) a rhs"
| "bare_times T (Loose a name f b) rhs =
     cxx_binary name f a (cxx_binary ''*'' (t_mul T) b rhs)"

text \<open>
  The two arguments that \<^verbatim>\<open>UTEST_EVALUATE_CLOSE\<close> passes on:
  \<^verbatim>\<open>std::fabs((left) - (right))\<close> and
  \<^verbatim>\<open>epsilon * (1 + std::fabs((left)) + std::fabs((right)))\<close>, the latter with its
  parenthesised factor apart.
\<close>

definition close_difference :: "'v cxx_type \<Rightarrow> ('s, 'v) arg \<Rightarrow> ('s, 'v) arg \<Rightarrow> ('s, 'v) arg" where
  "close_difference T left right =
     cxx_call ''std::fabs'' (t_fabs T)
       (cxx_binary ''-'' (t_sub T) (cxx_paren left) (cxx_paren right))"

definition close_scale :: "'v cxx_type \<Rightarrow> ('s, 'v) arg \<Rightarrow> ('s, 'v) arg \<Rightarrow> ('s, 'v) arg" where
  "close_scale T left right =
     cxx_paren
       (cxx_binary ''+'' (t_add T)
          (cxx_binary ''+'' (t_add T) (cxx_lit ''1'' (t_one T))
             (cxx_call ''std::fabs'' (t_fabs T) (cxx_paren left)))
          (cxx_call ''std::fabs'' (t_fabs T) (cxx_paren right)))"

definition close_tolerance ::
  "'v cxx_type \<Rightarrow> ('s, 'v) arg \<Rightarrow> ('s, 'v) arg \<Rightarrow> ('s, 'v) bare_arg \<Rightarrow> ('s, 'v) arg" where
  "close_tolerance T left right epsilon = bare_times T epsilon (close_scale T left right)"

definition UTEST_EVALUATE_CLOSE ::
  "'v cxx_type \<Rightarrow> ('s, 'v) arg \<Rightarrow> ('s, 'v) arg \<Rightarrow> ('s, 'v) bare_arg \<Rightarrow> bool \<Rightarrow> loc \<Rightarrow>
   's utest \<Rightarrow> 's result" where
  "UTEST_EVALUATE_CLOSE T left right epsilon critical =
     UTEST_EVALUATE_LESS T (close_difference T left right)
       (close_tolerance T left right epsilon) critical"

definition UTEST_CHECK_CLOSE ::
  "'v cxx_type \<Rightarrow> ('s, 'v) arg \<Rightarrow> ('s, 'v) arg \<Rightarrow> ('s, 'v) bare_arg \<Rightarrow> loc \<Rightarrow>
   's utest \<Rightarrow> 's result" where
  "UTEST_CHECK_CLOSE T left right epsilon = UTEST_EVALUATE_CLOSE T left right epsilon False"

definition UTEST_REQUIRE_CLOSE ::
  "'v cxx_type \<Rightarrow> ('s, 'v) arg \<Rightarrow> ('s, 'v) arg \<Rightarrow> ('s, 'v) bare_arg \<Rightarrow> loc \<Rightarrow>
   's utest \<Rightarrow> 's result" where
  "UTEST_REQUIRE_CLOSE T left right epsilon = UTEST_EVALUATE_CLOSE T left right epsilon True"

subsection \<open>The statements a macro expands to\<close>

text \<open>
  A macro is replaced by its text. \<^verbatim>\<open>UTEST_EVALUATE_BINARY_OP\<close> is one block in braces, but
  \<^verbatim>\<open>UTEST_EVALUATE\<close>, \<^verbatim>\<open>UTEST_THROW\<close> and \<^verbatim>\<open>UTEST_NOTHROW\<close> are two statements (the increment
  of \<open>utest_n_checks\<close>, then the \<^verbatim>\<open>if\<close> or the \<^verbatim>\<open>switch\<close>) and \<^verbatim>\<open>UTEST_CASE\<close> is three, none
  of them in braces. Where the macro stands as a statement of its own these run one after
  the other, which is what the functions above compute. Where it stands as the body of an
  \<^verbatim>\<open>if\<close> or of a loop written without braces, only the first statement is that body.
\<close>

type_synonym 's cxx_stmt = "'s utest \<Rightarrow> 's result"

fun run :: "'s cxx_stmt list \<Rightarrow> 's cxx_stmt" where
  "run [] s = Continue s"
| "run (f # fs) s =
     (case f s of
        Continue s' \<Rightarrow> run fs s'
      | Exit code s' \<Rightarrow> Exit code s'
      | Raise e s' \<Rightarrow> Raise e s')"

definition UTEST_CASE_stmts :: "string \<Rightarrow> 's cxx_stmt list" where
  "UTEST_CASE_stmts name =
     [\<lambda>s. Continue (s\<lparr>utest_n_cases := utest_n_cases s + 1\<rparr>),
      \<lambda>s. Continue (s\<lparr>utest_case_name := name\<rparr>),
      \<lambda>s. Continue (s\<lparr>cout := cout s @
             [''running test case ['' @ utest_module_name s @ ''/'' @ utest_case_name s @
              ''] ...'']\<rparr>)]"

definition UTEST_EVALUATE_stmts :: "('s, bool) arg \<Rightarrow> bool \<Rightarrow> loc \<Rightarrow> 's cxx_stmt list" where
  "UTEST_EVALUATE_stmts check critical l =
     [\<lambda>s. Continue (s\<lparr>utest_n_checks := utest_n_checks s + 1\<rparr>),
      \<lambda>s. case arg_eval check (store s) of
             (Inl e, u) \<Rightarrow> Raise e (s\<lparr>store := u\<rparr>)
           | (Inr b, u) \<Rightarrow>
               let s2 = s\<lparr>store := u\<rparr> in
               if \<not> b then
                 UTEST_HANDLE_CRITICAL critical
                   (UTEST_HANDLE_FAILURE l ('']: check {'' @ arg_text check @ ''} failed!'') s2)
               else Continue s2]"

definition UTEST_THROW_stmts ::
  "('s, 'a) arg \<Rightarrow> string \<Rightarrow> bool \<Rightarrow> loc \<Rightarrow> 's cxx_stmt list" where
  "UTEST_THROW_stmts call exception critical l =
     [\<lambda>s. Continue (s\<lparr>utest_n_checks := utest_n_checks s + 1\<rparr>),
      \<lambda>s. case check_throw exception (lambda_void call) (store s) of
             (Inl e, u) \<Rightarrow> Raise e (s\<lparr>store := u\<rparr>)
           | (Inr st, u) \<Rightarrow>
               let s2 = s\<lparr>store := u\<rparr> in
               (case st of
                  none \<Rightarrow>
                    UTEST_HANDLE_CRITICAL critical
                      (UTEST_HANDLE_FAILURE l
                         ('']: call {'' @ arg_text call @ ''} does not throw!'') s2)
                | expected \<Rightarrow> Continue s2
                | unexpected \<Rightarrow>
                    UTEST_HANDLE_CRITICAL critical
                      (UTEST_HANDLE_FAILURE l
                         ('']: call {'' @ arg_text call @ ''} does not throw {'' @ exception @
                          ''}!'') s2))]"

definition UTEST_NOTHROW_stmts :: "('s, 'a) arg \<Rightarrow> bool \<Rightarrow> loc \<Rightarrow> 's cxx_stmt list" where
  "UTEST_NOTHROW_stmts call critical l =
     [\<lambda>s. Continue (s\<lparr>utest_n_checks := utest_n_checks s + 1\<rparr>),
      \<lambda>s. case check_throw ''std::exception'' (lambda_void call) (store s) of
             (Inl e, u) \<Rightarrow> Raise e (s\<lparr>store := u\<rparr>)
           | (Inr st, u) \<Rightarrow>
               let s2 = s\<lparr>store := u\<rparr> in
               (case st of
                  none \<Rightarrow> Continue s2
                | expected \<Rightarrow>
                    UTEST_HANDLE_CRITICAL critical
                      (UTEST_HANDLE_FAILURE l
                         ('']: call {'' @ arg_text call @ ''} throws!'') s2)
                | unexpected \<Rightarrow>
                    UTEST_HANDLE_CRITICAL critical
                      (UTEST_HANDLE_FAILURE l
                         ('']: call {'' @ arg_text call @ ''} throws!'') s2))]"

text \<open>
  \<^verbatim>\<open>if (cond) body\<close> without \<^verbatim>\<open>else\<close>, and the loop \<^verbatim>\<open>for (int i = 0; i < n; ++i) body\<close>
  whose body does not use \<^verbatim>\<open>i\<close>, for a body that is one statement.
\<close>

definition cxx_if :: "('s, bool) arg \<Rightarrow> 's cxx_stmt \<Rightarrow> 's cxx_stmt" where
  "cxx_if cond body s =
     (case arg_eval cond (store s) of
        (Inl e, u) \<Rightarrow> Raise e (s\<lparr>store := u\<rparr>)
      | (Inr b, u) \<Rightarrow> if b then body (s\<lparr>store := u\<rparr>) else Continue (s\<lparr>store := u\<rparr>))"

primrec cxx_for :: "nat \<Rightarrow> 's cxx_stmt \<Rightarrow> 's cxx_stmt" where
  "cxx_for 0 body s = Continue s"
| "cxx_for (Suc n) body s =
     (case body s of
        Continue s' \<Rightarrow> cxx_for n body s'
      | Exit code s' \<Rightarrow> Exit code s'
      | Raise e s' \<Rightarrow> Raise e s')"

subsection \<open>A module: the body between the begin and end macros\<close>

text \<open>
  The statements of a module body: the macros of the header, the ordinary code between
  them, which works on the store and may throw, and a statement of the body written after
  \<^verbatim>\<open>if (cond)\<close> or after the head of a loop without braces around it.
\<close>

datatype ('s, 'v) stmt =
    Case string
  | Code "('s, unit) comp"
  | Evaluate "('s, bool) arg" bool loc
  | Throw "('s, 'v) arg" string bool loc
  | Nothrow "('s, 'v) arg" bool loc
  | Binary_op "('s, 'v) arg" "('s, 'v) arg" relop bool loc
  | Close "('s, 'v) arg" "('s, 'v) arg" "('s, 'v) bare_arg" bool loc
  | If_then "('s, bool) arg" "('s, 'v) stmt"
  | For_times nat "('s, 'v) stmt"

text \<open>
  The C++ statements that a statement of the body is once the macros are replaced. The
  \<^verbatim>\<open>if\<close> and the loop take the first statement of what follows them as their body.
\<close>

fun expand :: "'v cxx_type \<Rightarrow> ('s, 'v) stmt \<Rightarrow> 's cxx_stmt list" where
  "expand T (Case name) = UTEST_CASE_stmts name"
| "expand T (Code f) =
     [\<lambda>s. case f (store s) of
             (Inl e, u) \<Rightarrow> Raise e (s\<lparr>store := u\<rparr>)
           | (Inr _, u) \<Rightarrow> Continue (s\<lparr>store := u\<rparr>)]"
| "expand T (Evaluate check critical l) = UTEST_EVALUATE_stmts check critical l"
| "expand T (Throw call exception critical l) = UTEST_THROW_stmts call exception critical l"
| "expand T (Nothrow call critical l) = UTEST_NOTHROW_stmts call critical l"
| "expand T (Binary_op left right op critical l) =
     [UTEST_EVALUATE_BINARY_OP T left right op critical l]"
| "expand T (Close left right epsilon critical l) =
     [UTEST_EVALUATE_CLOSE T left right epsilon critical l]"
| "expand T (If_then cond c) =
     (case expand T c of [] \<Rightarrow> [] | first # rest \<Rightarrow> cxx_if cond first # rest)"
| "expand T (For_times n c) =
     (case expand T c of [] \<Rightarrow> [] | first # rest \<Rightarrow> cxx_for n first # rest)"

fun step :: "'v cxx_type \<Rightarrow> ('s, 'v) stmt \<Rightarrow> 's utest \<Rightarrow> 's result" where
  "step T (Case name) s = UTEST_CASE name s"
| "step T (Code f) s =
     (case f (store s) of
        (Inl e, u) \<Rightarrow> Raise e (s\<lparr>store := u\<rparr>)
      | (Inr _, u) \<Rightarrow> Continue (s\<lparr>store := u\<rparr>))"
| "step T (Evaluate check critical l) s = UTEST_EVALUATE check critical l s"
| "step T (Throw call exception critical l) s = UTEST_THROW call exception critical l s"
| "step T (Nothrow call critical l) s = UTEST_NOTHROW call critical l s"
| "step T (Binary_op left right op critical l) s =
     UTEST_EVALUATE_BINARY_OP T left right op critical l s"
| "step T (Close left right epsilon critical l) s =
     UTEST_EVALUATE_CLOSE T left right epsilon critical l s"
| "step T (If_then cond c) s = run (expand T (If_then cond c)) s"
| "step T (For_times n c) s = run (expand T (For_times n c)) s"

text \<open>Statements run in order; \<^verbatim>\<open>exit\<close> and a thrown exception skip the rest.\<close>

fun exec :: "'v cxx_type \<Rightarrow> ('s, 'v) stmt list \<Rightarrow> 's utest \<Rightarrow> 's result" where
  "exec T [] s = Continue s"
| "exec T (c # cs) s =
     (case step T c s of
        Continue s' \<Rightarrow> exec T cs s'
      | Exit code s' \<Rightarrow> Exit code s'
      | Raise e s' \<Rightarrow> Raise e s')"

text \<open>
  The function \<^verbatim>\<open>main\<close> that \<^verbatim>\<open>UTEST_BEGIN_MODULE(name)\<close>, the body and
  \<^verbatim>\<open>UTEST_END_MODULE()\<close> make up: the \<^verbatim>\<open>try\<close> block, then the two handlers.
\<close>

definition utest_try :: "string \<Rightarrow> 'v cxx_type \<Rightarrow> ('s, 'v) stmt list \<Rightarrow> 's \<Rightarrow> 's result" where
  "utest_try name T body u =
     (case UTEST_BEGIN_MODULE name (utest_init u) of
        Continue s0 \<Rightarrow>
          (case exec T body s0 of
             Continue s1 \<Rightarrow> UTEST_END_MODULE s1
           | Exit code s1 \<Rightarrow> Exit code s1
           | Raise e s1 \<Rightarrow> Raise e s1)
      | Exit code s0 \<Rightarrow> Exit code s0
      | Raise e s0 \<Rightarrow> Raise e s0)"

definition utest_main :: "string \<Rightarrow> 'v cxx_type \<Rightarrow> ('s, 'v) stmt list \<Rightarrow> 's \<Rightarrow> 's result" where
  "utest_main name T body u =
     (case utest_try name T body u of
        Raise e s \<Rightarrow>
          if ''std::exception'' \<in> set (ex_types e) then
            Exit EXIT_FAILURE (s\<lparr>cout := cout s @
              ['' failed with uncaught exception <'' @ ex_what e @ ''>!'']\<rparr>)
          else
            Exit EXIT_FAILURE (s\<lparr>cout := cout s @
              ['' failed with uncaught unknown exception!'']\<rparr>)
      | Continue s \<Rightarrow> Continue s
      | Exit code s \<Rightarrow> Exit code s)"

subsection \<open>Notions used to state the properties\<close>

text \<open>The state in which the first statement of the body runs.\<close>

definition module_start :: "string \<Rightarrow> 's \<Rightarrow> 's utest" where
  "module_start name u = (utest_init u)\<lparr>utest_module_name := name\<rparr>"

text \<open>
  The statements that are a macro or a piece of code standing on its own; among them those
  that are checks, and the value of their \<^verbatim>\<open>critical\<close> argument.
\<close>

fun standalone :: "('s, 'v) stmt \<Rightarrow> bool" where
  "standalone (If_then cond c) = False"
| "standalone (For_times n c) = False"
| "standalone c = True"


fun is_check :: "('s, 'v) stmt \<Rightarrow> bool" where
  "is_check (Case name) = False"
| "is_check (Code f) = False"
| "is_check (Evaluate check critical l) = True"
| "is_check (Throw call exception critical l) = True"
| "is_check (Nothrow call critical l) = True"
| "is_check (Binary_op left right op critical l) = True"
| "is_check (Close left right epsilon critical l) = True"
| "is_check (If_then cond c) = False"
| "is_check (For_times n c) = False"

fun is_critical :: "('s, 'v) stmt \<Rightarrow> bool" where
  "is_critical (Case name) = False"
| "is_critical (Code f) = False"
| "is_critical (Evaluate check critical l) = critical"
| "is_critical (Throw call exception critical l) = critical"
| "is_critical (Nothrow call critical l) = critical"
| "is_critical (Binary_op left right op critical l) = critical"
| "is_critical (Close left right epsilon critical l) = critical"
| "is_critical (If_then cond c) = False"
| "is_critical (For_times n c) = False"

text \<open>
  A check standing on its own fails on a store when the guard of its failure branch holds
  there: the condition of the \<^verbatim>\<open>if\<close>, or the \<^verbatim>\<open>switch\<close> reaching a case that calls
  \<^verbatim>\<open>UTEST_HANDLE_FAILURE\<close>. A check whose operands throw neither passes nor fails.
\<close>

fun check_fails :: "'v cxx_type \<Rightarrow> ('s, 'v) stmt \<Rightarrow> 's \<Rightarrow> bool" where
  "check_fails T (Case name) u = False"
| "check_fails T (Code f) u = False"
| "check_fails T (Evaluate check critical l) u =
     (case arg_eval check u of (Inl e, _) \<Rightarrow> False | (Inr b, _) \<Rightarrow> \<not> b)"
| "check_fails T (Throw call exception critical l) u =
     (case check_throw exception (lambda_void call) u of
        (Inl e, _) \<Rightarrow> False
      | (Inr st, _) \<Rightarrow> st = none \<or> st = unexpected)"
| "check_fails T (Nothrow call critical l) u =
     (case check_throw ''std::exception'' (lambda_void call) u of
        (Inl e, _) \<Rightarrow> False
      | (Inr st, _) \<Rightarrow> st = expected \<or> st = unexpected)"
| "check_fails T (Binary_op left right op critical l) u =
     (case arg_eval left u of
        (Inl e, _) \<Rightarrow> False
      | (Inr res_left, u1) \<Rightarrow>
          (case arg_eval right u1 of
             (Inl e, _) \<Rightarrow> False
           | (Inr res_right, _) \<Rightarrow> \<not> apply_op T op res_left res_right))"
| "check_fails T (Close left right epsilon critical l) u =
     (case arg_eval (close_difference T left right) u of
        (Inl e, _) \<Rightarrow> False
      | (Inr res_left, u1) \<Rightarrow>
          (case arg_eval (close_tolerance T left right epsilon) u1 of
             (Inl e, _) \<Rightarrow> False
           | (Inr res_right, _) \<Rightarrow> \<not> apply_op T Op_lt res_left res_right))"
| "check_fails T (If_then cond c) u = False"
| "check_fails T (For_times n c) u = False"

text \<open>
  What can be observed of a check that passed: control goes on to the next statement, no
  failure is counted and nothing is printed. Of one that failed: one failure is counted and
  one line is printed.
\<close>

definition passed :: "'s utest \<Rightarrow> 's result \<Rightarrow> bool" where
  "passed s r =
     (case r of
        Continue s' \<Rightarrow> utest_n_failures s' = utest_n_failures s \<and> cout s' = cout s
      | Exit code s' \<Rightarrow> False
      | Raise e s' \<Rightarrow> False)"

definition failed_with :: "'s utest \<Rightarrow> 's result \<Rightarrow> string \<Rightarrow> bool" where
  "failed_with s r line =
     (utest_n_failures (state_of r) = utest_n_failures s + 1 \<and>
      cout (state_of r) = cout s @ [line])"

subsection \<open>Operand types and operands for the examples\<close>

definition show_int :: "int \<Rightarrow> string" where
  "show_int i = (if i < 0 then ''-'' @ show_nat (nat (- i)) else show_nat (nat i))"

text \<open>\<^verbatim>\<open>int\<close> operands, away from overflow.\<close>

definition int_type :: "int cxx_type" where
  "int_type =
     \<lparr>t_eq = (\<lambda>a b. a = b), t_ne = (\<lambda>a b. a \<noteq> b), t_lt = (\<lambda>a b. a < b),
      t_le = (\<lambda>a b. a \<le> b), t_gt = (\<lambda>a b. a > b), t_ge = (\<lambda>a b. a \<ge> b),
      t_put = show_int, t_fabs = abs, t_sub = (\<lambda>a b. a - b), t_add = (\<lambda>a b. a + b),
      t_mul = (\<lambda>a b. a * b), t_one = 1\<rparr>"

text \<open>
  Exact real arithmetic, standing in for \<^verbatim>\<open>double\<close> in the examples; a value is printed
  in fixed notation with twelve digits after the point.
\<close>

definition show_fixed12 :: "real \<Rightarrow> string" where
  "show_fixed12 q =
     (if q < 0 then ''-'' else []) @
     show_nat (nat (round (\<bar>q\<bar> * 10 ^ 12)) div 10 ^ 12) @ ''.'' @
     tl (show_nat (10 ^ 12 + nat (round (\<bar>q\<bar> * 10 ^ 12)) mod 10 ^ 12))"

definition real_type :: "real cxx_type" where
  "real_type =
     \<lparr>t_eq = (\<lambda>a b. a = b), t_ne = (\<lambda>a b. a \<noteq> b), t_lt = (\<lambda>a b. a < b),
      t_le = (\<lambda>a b. a \<le> b), t_gt = (\<lambda>a b. a > b), t_ge = (\<lambda>a b. a \<ge> b),
      t_put = show_fixed12, t_fabs = abs, t_sub = (\<lambda>a b. a - b), t_add = (\<lambda>a b. a + b),
      t_mul = (\<lambda>a b. a * b), t_one = 1\<rparr>"

text \<open>An operand without side effects, and a place in a test file.\<close>

definition pure_arg :: "string \<Rightarrow> 'a \<Rightarrow> ('s, 'a) arg" where
  "pure_arg t v = \<lparr>arg_text = t, arg_eval = (\<lambda>u. (Inr v, u))\<rparr>"

definition at_line :: "nat \<Rightarrow> loc" where
  "at_line n = \<lparr>loc_file = ''test.cpp'', loc_line = n\<rparr>"

text \<open>An operand that throws an object of the given classes, carrying the given text.\<close>

definition throwing_arg :: "string \<Rightarrow> string list \<Rightarrow> string \<Rightarrow> ('s, 'a) arg" where
  "throwing_arg t classes msg = \<lparr>arg_text = t, arg_eval = (\<lambda>u. (Inl (Exn classes msg), u))\<rparr>"

text \<open>
  Operands with a side effect: the store is a pair of counters, \<^verbatim>\<open>next_left()\<close> increments
  the first and returns a fixed value, \<^verbatim>\<open>next_right()\<close> does the same with the second.
\<close>

definition next_left :: "'v \<Rightarrow> (nat \<times> nat, 'v) arg" where
  "next_left v = \<lparr>arg_text = ''next_left()'', arg_eval = (\<lambda>(i, j). (Inr v, (i + 1, j)))\<rparr>"

definition next_right :: "'v \<Rightarrow> (nat \<times> nat, 'v) arg" where
  "next_right v = \<lparr>arg_text = ''next_right()'', arg_eval = (\<lambda>(i, j). (Inr v, (i, j + 1)))\<rparr>"

text \<open>A module body of \<open>2 ^ 64\<close> checks: one that fails, then \<open>2 ^ 64 - 1\<close> that pass.\<close>

definition wrap_body :: "(unit, int) stmt list" where
  "wrap_body =
     Evaluate (pure_arg ''false'' False) False (at_line 1) #
     replicate (2 ^ 64 - 1) (Evaluate (pure_arg ''true'' True) False (at_line 2))"

section \<open>Properties\<close>

lemmas macro_defs =
  UTEST_EVALUATE_def UTEST_THROW_def UTEST_NOTHROW_def UTEST_EVALUATE_BINARY_OP_def
  UTEST_EVALUATE_CLOSE_def UTEST_EVALUATE_LESS_def UTEST_HANDLE_CRITICAL_def
  UTEST_HANDLE_FAILURE_def UTEST_CASE_def

lemmas cxx_defs =
  cxx_call_def cxx_binary_def cxx_paren_def cxx_lit_def close_difference_def close_scale_def
  close_tolerance_def

lemmas example_defs =
  utest_main_def utest_try_def UTEST_BEGIN_MODULE_def UTEST_END_MODULE_def module_start_def
  utest_init_def pure_arg_def throwing_arg_def at_line_def int_type_def real_type_def
  next_left_def next_right_def show_int_def

subsection \<open>Sequences of statements\<close>

lemma exec_append:
  "exec T (xs @ ys) s =
     (case exec T xs s of
        Continue s' \<Rightarrow> exec T ys s'
      | Exit code s' \<Rightarrow> Exit code s'
      | Raise e s' \<Rightarrow> Raise e s')"
  by (induction xs arbitrary: s) (auto split: result.splits)

text \<open>
  Where a macro stands on its own, running the statements it expands to is what the
  function of its name computes.
\<close>

lemma step_expand: "step T c s = run (expand T c) s"
  by (cases c)
    (simp_all add: UTEST_CASE_stmts_def UTEST_EVALUATE_stmts_def UTEST_THROW_stmts_def
      UTEST_NOTHROW_stmts_def UTEST_CASE_def UTEST_EVALUATE_def UTEST_THROW_def
      UTEST_NOTHROW_def Let_def split: prod.splits sum.splits result.splits)

text \<open>The only call of \<^verbatim>\<open>exit\<close> inside a body is the one of \<^verbatim>\<open>UTEST_HANDLE_CRITICAL\<close>.\<close>

lemma cxx_for_Exit:
  assumes "\<And>s code s'. body s = Exit code s' \<Longrightarrow> code = EXIT_FAILURE"
  shows "cxx_for n body s = Exit code s' \<Longrightarrow> code = EXIT_FAILURE"
  by (induction n arbitrary: s) (auto split: result.splits dest: assms)

lemma expand_Exit:
  "f \<in> set (expand T c) \<Longrightarrow> f s = Exit code s' \<Longrightarrow> code = EXIT_FAILURE"
proof (induction c arbitrary: f s code s')
  case (If_then cond c)
  from If_then.prems(1) obtain first rest
    where e: "expand T c = first # rest" and f: "f = cxx_if cond first \<or> f \<in> set rest"
    by (cases "expand T c") auto
  from f show ?case
  proof
    assume "f = cxx_if cond first"
    with If_then.prems(2) obtain s1 where "first s1 = Exit code s'"
      by (auto simp: cxx_if_def split: prod.splits sum.splits if_splits)
    moreover have "first \<in> set (expand T c)" using e by simp
    ultimately show ?thesis by (rule If_then.IH [rotated])
  next
    assume "f \<in> set rest"
    then have "f \<in> set (expand T c)" using e by simp
    then show ?thesis using If_then.prems(2) by (rule If_then.IH)
  qed
next
  case (For_times n c)
  from For_times.prems(1) obtain first rest
    where e: "expand T c = first # rest" and f: "f = cxx_for n first \<or> f \<in> set rest"
    by (cases "expand T c") auto
  from f show ?case
  proof
    assume "f = cxx_for n first"
    moreover have "first \<in> set (expand T c)" using e by simp
    then have "\<And>s code s'. first s = Exit code s' \<Longrightarrow> code = EXIT_FAILURE"
      using For_times.IH by blast
    ultimately show ?thesis using For_times.prems(2) by (auto dest: cxx_for_Exit [rotated])
  next
    assume "f \<in> set rest"
    then have "f \<in> set (expand T c)" using e by simp
    then show ?thesis using For_times.prems(2) by (rule For_times.IH)
  qed
qed (auto simp: UTEST_CASE_stmts_def UTEST_EVALUATE_stmts_def UTEST_THROW_stmts_def
      UTEST_NOTHROW_stmts_def macro_defs Let_def
      split: prod.splits sum.splits if_splits exception_status.splits)

lemma run_Exit:
  assumes "\<And>f s code s'. f \<in> set fs \<Longrightarrow> f s = Exit code s' \<Longrightarrow> code = EXIT_FAILURE"
  shows "run fs s = Exit code s' \<Longrightarrow> code = EXIT_FAILURE"
  using assms
proof (induction fs arbitrary: s)
  case Nil
  then show ?case by simp
next
  case (Cons f fs)
  show ?case
  proof (cases "f s")
    case (Continue s1)
    with Cons.prems(1) have "run fs s1 = Exit code s'" by simp
    then show ?thesis using Cons.IH Cons.prems(2) by (meson list.set_intros(2))
  next
    case (Exit code1 s1)
    with Cons.prems(1) have "f s = Exit code s'" by simp
    then show ?thesis using Cons.prems(2) by (meson list.set_intros(1))
  next
    case (Raise e s1)
    with Cons.prems(1) show ?thesis by simp
  qed
qed

lemma step_Exit: "step T c s = Exit code s' \<Longrightarrow> code = EXIT_FAILURE"
  unfolding step_expand by (rule run_Exit [of "expand T c"]) (rule expand_Exit)

lemma exec_Exit: "exec T cs s = Exit code s' \<Longrightarrow> code = EXIT_FAILURE"
  by (induction cs arbitrary: s) (auto split: result.splits dest: step_Exit)

subsection \<open>The exit status of a module\<close>

text \<open>
  Claim C1. The process always ends through \<^verbatim>\<open>exit\<close>. Its status is \<open>EXIT_SUCCESS\<close> exactly
  when the body ran to its end (no critical check ended the process, no exception left the
  body) and \<open>utest_n_failures\<close> is 0 there; in every other case it is \<open>EXIT_FAILURE\<close>. When the
  body runs to its end the status depends on nothing but \<open>utest_n_failures\<close>.
\<close>

theorem utest_main_exit_status:
  "\<exists>s. utest_main name T body u =
     Exit (case exec T body (module_start name u) of
             Continue s1 \<Rightarrow> if utest_n_failures s1 = 0 then EXIT_SUCCESS else EXIT_FAILURE
           | Exit code s1 \<Rightarrow> EXIT_FAILURE
           | Raise e s1 \<Rightarrow> EXIT_FAILURE) s"
  by (auto simp: utest_main_def utest_try_def UTEST_BEGIN_MODULE_def UTEST_END_MODULE_def
      module_start_def word_greater_zero_iff
      split: result.splits dest: exec_Exit)

theorem utest_main_exit_status_witness:
  "(\<exists>s. utest_main ''m'' int_type
      [Case ''c'', Binary_op (pure_arg ''2+2'' 4) (pure_arg ''4'' 4) Op_eq False (at_line 3)] () =
      Exit EXIT_SUCCESS s) \<and>
   (\<exists>s. utest_main ''m'' int_type
      [Case ''c'', Binary_op (pure_arg ''2+2'' 4) (pure_arg ''5'' 5) Op_eq False (at_line 3)] () =
      Exit EXIT_FAILURE s)"
  using utest_main_exit_status [of "''m''" int_type
      "[Case ''c'', Binary_op (pure_arg ''2+2'' 4) (pure_arg ''4'' 4) Op_eq False (at_line 3)]" "()"]
    utest_main_exit_status [of "''m''" int_type
      "[Case ''c'', Binary_op (pure_arg ''2+2'' 4) (pure_arg ''5'' 5) Op_eq False (at_line 3)]" "()"]
  by (simp add: module_start_def utest_init_def pure_arg_def int_type_def macro_defs)

subsection \<open>The counters\<close>

lemma step_not_check:
  "standalone c \<Longrightarrow> \<not> is_check c \<Longrightarrow>
   utest_n_checks (state_of (step T c s)) = utest_n_checks s \<and>
   utest_n_failures (state_of (step T c s)) = utest_n_failures s"
  by (cases c) (auto simp: UTEST_CASE_def Let_def split: prod.splits sum.splits)

lemma step_check_Evaluate:
  "utest_n_checks (state_of (UTEST_EVALUATE check critical l s)) = utest_n_checks s + 1 \<and>
   utest_n_failures (state_of (UTEST_EVALUATE check critical l s)) =
     utest_n_failures s + (if check_fails T (Evaluate check critical l) (store s) then 1 else 0)"
  by (auto simp: macro_defs Let_def split: prod.splits sum.splits)

lemma step_check_Throw:
  "utest_n_checks (state_of (UTEST_THROW call exception critical l s)) = utest_n_checks s + 1 \<and>
   utest_n_failures (state_of (UTEST_THROW call exception critical l s)) =
     utest_n_failures s +
     (if check_fails T (Throw call exception critical l) (store s) then 1 else 0)"
  by (auto simp: macro_defs Let_def split: prod.splits sum.splits exception_status.splits)

lemma step_check_Nothrow:
  "utest_n_checks (state_of (UTEST_NOTHROW call critical l s)) = utest_n_checks s + 1 \<and>
   utest_n_failures (state_of (UTEST_NOTHROW call critical l s)) =
     utest_n_failures s + (if check_fails T (Nothrow call critical l) (store s) then 1 else 0)"
  by (auto simp: macro_defs Let_def split: prod.splits sum.splits exception_status.splits)

lemma step_check_Binary_op:
  "utest_n_checks (state_of (UTEST_EVALUATE_BINARY_OP T left right op critical l s)) =
     utest_n_checks s + 1 \<and>
   utest_n_failures (state_of (UTEST_EVALUATE_BINARY_OP T left right op critical l s)) =
     utest_n_failures s +
     (if check_fails T (Binary_op left right op critical l) (store s) then 1 else 0)"
  by (auto simp: macro_defs Let_def split: prod.splits sum.splits)

lemma check_fails_Close:
  "check_fails T (Close left right epsilon critical l) u =
   check_fails T
     (Binary_op (close_difference T left right) (close_tolerance T left right epsilon)
        Op_lt critical l) u"
  by simp

lemma step_check:
  "is_check c \<Longrightarrow>
   utest_n_checks (state_of (step T c s)) = utest_n_checks s + 1 \<and>
   utest_n_failures (state_of (step T c s)) =
     utest_n_failures s + (if check_fails T c (store s) then 1 else 0)"
proof (cases c)
  case (Close left right epsilon critical l)
  show ?thesis
    unfolding Close step.simps UTEST_EVALUATE_CLOSE_def UTEST_EVALUATE_LESS_def check_fails_Close
    by (rule step_check_Binary_op)
qed (simp_all only: step.simps is_check.simps step_check_Evaluate step_check_Throw
      step_check_Nothrow step_check_Binary_op simp_thms)

text \<open>Away from the wrap-around the counters, read as numbers, count checks and failures.\<close>

lemma step_counts_unat:
  assumes "unat (utest_n_checks s) + (if is_check c then 1 else 0) < 2 ^ 64"
    and "unat (utest_n_failures s) \<le> unat (utest_n_checks s)"
    and "standalone c"
  shows "unat (utest_n_checks (state_of (step T c s))) =
           unat (utest_n_checks s) + (if is_check c then 1 else 0) \<and>
         unat (utest_n_failures (state_of (step T c s))) =
           unat (utest_n_failures s) +
           (if check_fails T c (store s) \<and> is_check c then 1 else 0)"
proof (cases "is_check c")
  case False
  then show ?thesis using assms(3) by (simp add: step_not_check)
next
  case True
  have a: "unat (utest_n_checks s + 1) = unat (utest_n_checks s) + 1"
    using assms(1) True by (simp add: unat_add_lem [THEN iffD1])
  have b: "unat (utest_n_failures s + 1) = unat (utest_n_failures s) + 1"
    using assms(1,2) True by (simp add: unat_add_lem [THEN iffD1])
  show ?thesis using True a b by (simp add: step_check)
qed

lemma exec_counts_unat:
  assumes "exec T pre s0 = Continue s"
    and "unat (utest_n_checks s0) + length (filter is_check pre) < 2 ^ 64"
    and "unat (utest_n_failures s0) \<le> unat (utest_n_checks s0)"
    and "list_all standalone pre"
  shows "unat (utest_n_checks s) = unat (utest_n_checks s0) + length (filter is_check pre) \<and>
         unat (utest_n_failures s) \<le> unat (utest_n_checks s)"
  using assms
proof (induction pre arbitrary: s0)
  case Nil
  then show ?case by simp
next
  case (Cons c cs)
  from Cons.prems(1) obtain s1
    where s1: "step T c s0 = Continue s1" and rest: "exec T cs s1 = Continue s"
    by (auto split: result.splits)
  have bound: "unat (utest_n_checks s0) + (if is_check c then 1 else 0) < 2 ^ 64"
    using Cons.prems(2) by (auto split: if_splits)
  have alone: "standalone c" "list_all standalone cs"
    using Cons.prems(4) by simp_all
  from step_counts_unat [OF bound Cons.prems(3) alone(1), of T] s1
  have c1: "unat (utest_n_checks s1) = unat (utest_n_checks s0) + (if is_check c then 1 else 0)"
    and f1: "unat (utest_n_failures s1) =
      unat (utest_n_failures s0) + (if check_fails T c (store s0) \<and> is_check c then 1 else 0)"
    by simp_all
  have "unat (utest_n_checks s1) + length (filter is_check cs) < 2 ^ 64"
    using Cons.prems(2) c1 by (auto split: if_splits)
  moreover have "unat (utest_n_failures s1) \<le> unat (utest_n_checks s1)"
    using c1 f1 Cons.prems(3) by (auto split: if_splits)
  ultimately have
    "unat (utest_n_checks s) = unat (utest_n_checks s1) + length (filter is_check cs) \<and>
     unat (utest_n_failures s) \<le> unat (utest_n_checks s)"
    using Cons.IH [OF rest _ _ alone(2)] by blast
  then show ?case using c1 by (auto split: if_splits)
qed

text \<open>A run of passing checks only moves \<open>utest_n_checks\<close>.\<close>

lemma exec_replicate_pass:
  "exec T (replicate n (Evaluate (pure_arg t True) False l)) s =
     Continue (s\<lparr>utest_n_checks := utest_n_checks s + of_nat n\<rparr>)"
proof (induction n arbitrary: s)
  case 0
  then show ?case by simp
next
  case (Suc n)
  have "step T (Evaluate (pure_arg t True) False l) s =
          Continue (s\<lparr>utest_n_checks := utest_n_checks s + 1\<rparr>)"
    by (simp add: UTEST_EVALUATE_def pure_arg_def Let_def)
  then show ?case by (simp add: Suc.IH add.assoc)
qed

text \<open>
  In a run of a module in which every statement stands on its own and fewer than \<open>2 ^ 64\<close>
  checks are evaluated, up to and including the statement \<open>c\<close>: if \<open>c\<close> is a check (boolean,
  relational, approximate or exception check) it adds exactly 1 to \<open>utest_n_checks\<close>, and
  adds 1 to \<open>utest_n_failures\<close> if it fails and nothing if it does not; any other statement
  leaves both counters alone; \<open>utest_n_failures \<le> utest_n_checks\<close> holds before and after
  \<open>c\<close>, and neither counter decreases.
\<close>

lemma counters_standalone:
  assumes "exec T pre (module_start name u) = Continue s"
    and "length (filter is_check (pre @ [c])) < 2 ^ 64"
    and "list_all standalone (pre @ [c])"
  shows "(is_check c \<longrightarrow>
            utest_n_checks (state_of (step T c s)) = utest_n_checks s + 1 \<and>
            utest_n_failures (state_of (step T c s)) =
              utest_n_failures s + (if check_fails T c (store s) then 1 else 0)) \<and>
         (\<not> is_check c \<longrightarrow>
            utest_n_checks (state_of (step T c s)) = utest_n_checks s \<and>
            utest_n_failures (state_of (step T c s)) = utest_n_failures s) \<and>
         utest_n_failures s \<le> utest_n_checks s \<and>
         utest_n_failures (state_of (step T c s)) \<le> utest_n_checks (state_of (step T c s)) \<and>
         utest_n_checks s \<le> utest_n_checks (state_of (step T c s)) \<and>
         utest_n_failures s \<le> utest_n_failures (state_of (step T c s))"
proof -
  let ?s0 = "module_start name u :: 'a utest"
  have alone: "list_all standalone pre" "standalone c"
    using assms(3) by simp_all
  have init: "unat (utest_n_checks ?s0) = 0" "unat (utest_n_failures ?s0) = 0"
    by (simp_all add: module_start_def utest_init_def)
  have pre_bound: "unat (utest_n_checks ?s0) + length (filter is_check pre) < 2 ^ 64"
    using assms(2) init by (auto split: if_splits)
  from exec_counts_unat [OF assms(1) pre_bound _ alone(1)] init
  have n: "unat (utest_n_checks s) = length (filter is_check pre)"
    and inv: "unat (utest_n_failures s) \<le> unat (utest_n_checks s)"
    by simp_all
  have bound: "unat (utest_n_checks s) + (if is_check c then 1 else 0) < 2 ^ 64"
    using assms(2) n by (auto split: if_splits)
  from step_counts_unat [OF bound inv alone(2), of T]
  have "unat (utest_n_checks (state_of (step T c s))) =
           unat (utest_n_checks s) + (if is_check c then 1 else 0)"
    and "unat (utest_n_failures (state_of (step T c s))) =
           unat (utest_n_failures s) +
           (if check_fails T c (store s) \<and> is_check c then 1 else 0)"
    by simp_all
  then show ?thesis
    using inv alone(2)
    by (auto simp: word_le_nat_alt step_check step_not_check split: if_splits)
qed

text \<open>
  The counters wrap around: after one failing check and \<open>2 ^ 64 - 1\<close> passing ones, each
  standing on its own, \<open>utest_n_checks\<close> is back at 0 while \<open>utest_n_failures\<close> is 1.
\<close>

lemma counters_wrap_around:
  "utest_n_checks (state_of (exec int_type wrap_body (module_start ''m'' ()))) = 0 \<and>
   utest_n_failures (state_of (exec int_type wrap_body (module_start ''m'' ()))) = 1 \<and>
   \<not> utest_n_failures (state_of (exec int_type wrap_body (module_start ''m'' ()))) \<le>
       utest_n_checks (state_of (exec int_type wrap_body (module_start ''m'' ())))"
proof -
  define s1 :: "unit utest" where
    "s1 = (module_start ''m'' ())\<lparr>utest_n_checks := 1, utest_n_failures := 1,
            cout := [''test.cpp:1: [m/]: check {false} failed!'']\<rparr>"
  have first: "step int_type (Evaluate (pure_arg ''false'' False) False (at_line 1))
      (module_start ''m'' ()) = Continue s1"
    by (simp add: s1_def module_start_def utest_init_def pure_arg_def at_line_def macro_defs
        show_nat.simps)
  have run: "exec int_type wrap_body (module_start ''m'' ()) =
      Continue (s1\<lparr>utest_n_checks := utest_n_checks s1 + of_nat (2 ^ 64 - 1)\<rparr>)"
    unfolding wrap_body_def
    by (simp only: exec.simps first result.case exec_replicate_pass)
  have wrap: "utest_n_checks s1 + of_nat (2 ^ 64 - 1) = 0"
    by (simp add: s1_def)
  show ?thesis
    unfolding run wrap by (simp add: s1_def)
qed

text \<open>
  Claim C2 at \<^verbatim>\<open>if (false) UTEST_CHECK(false);\<close> as the only statement of a module. The
  macro is two statements without braces, so the \<^verbatim>\<open>if\<close> guards the increment of
  \<open>utest_n_checks\<close> only: the check is evaluated and fails, \<open>utest_n_checks\<close> stays 0 and
  \<open>utest_n_failures\<close> becomes 1, which is more than \<open>utest_n_checks\<close>. In the same way
  \<^verbatim>\<open>for (int i = 0; i < 3; ++i) UTEST_CHECK(true);\<close> adds 3 to \<open>utest_n_checks\<close> and
  evaluates the check once, after the loop.
\<close>

theorem unbraced_check_counters:
  "exec int_type
     [If_then (pure_arg ''false'' False) (Evaluate (pure_arg ''false'' False) False (at_line 3))]
     (module_start ''m'' ()) =
     Continue
       \<lparr>utest_case_name = [], utest_module_name = ''m'', utest_n_cases = 0, utest_n_checks = 0,
        utest_n_failures = 1, cout = [''test.cpp:3: [m/]: check {false} failed!''],
        store = ()\<rparr> \<and>
   \<not> utest_n_failures (state_of (exec int_type
       [If_then (pure_arg ''false'' False)
          (Evaluate (pure_arg ''false'' False) False (at_line 3))]
       (module_start ''m'' ()))) \<le>
     utest_n_checks (state_of (exec int_type
       [If_then (pure_arg ''false'' False)
          (Evaluate (pure_arg ''false'' False) False (at_line 3))]
       (module_start ''m'' ()))) \<and>
   exec int_type
     [For_times 3 (Evaluate (next_left True) False (at_line 4))]
     (module_start ''m'' (0, 0)) =
     Continue
       \<lparr>utest_case_name = [], utest_module_name = ''m'', utest_n_cases = 0, utest_n_checks = 3,
        utest_n_failures = 0, cout = [], store = (1, 0)\<rparr>"
proof -
  have three: "show_nat 3 = ''3''"
    by (simp add: show_nat.simps)
  have a: "exec int_type
     [If_then (pure_arg ''false'' False) (Evaluate (pure_arg ''false'' False) False (at_line 3))]
     (module_start ''m'' ()) =
     Continue
       \<lparr>utest_case_name = [], utest_module_name = ''m'', utest_n_cases = 0, utest_n_checks = 0,
        utest_n_failures = 1, cout = [''test.cpp:3: [m/]: check {false} failed!''],
        store = ()\<rparr>"
    by (simp add: UTEST_EVALUATE_stmts_def cxx_if_def UTEST_HANDLE_CRITICAL_def
        UTEST_HANDLE_FAILURE_def module_start_def utest_init_def pure_arg_def at_line_def
        three Let_def)
  have b: "exec int_type
     [For_times 3 (Evaluate (next_left True) False (at_line 4))]
     (module_start ''m'' (0, 0)) =
     Continue
       \<lparr>utest_case_name = [], utest_module_name = ''m'', utest_n_cases = 0, utest_n_checks = 3,
        utest_n_failures = 0, cout = [], store = (1, 0)\<rparr>"
    by (simp add: UTEST_EVALUATE_stmts_def numeral_3_eq_3 module_start_def utest_init_def
        next_left_def Let_def)
  show ?thesis
    unfolding a b by simp
qed

subsection \<open>Critical checks\<close>

lemma step_critical_fails_Binary_op:
  "check_fails T (Binary_op left right op True l) (store s) \<Longrightarrow>
   \<exists>sF line. UTEST_EVALUATE_BINARY_OP T left right op True l s = Exit EXIT_FAILURE sF \<and>
     cout sF = cout s @ [line] \<and> CHR ''['' \<in> set line"
  by (auto simp: macro_defs Let_def split: prod.splits sum.splits)

lemma step_critical_fails:
  assumes "is_critical c" and "check_fails T c (store s)"
  shows "\<exists>sF line. step T c s = Exit EXIT_FAILURE sF \<and> cout sF = cout s @ [line] \<and>
           CHR ''['' \<in> set line"
proof (cases c)
  case (Close left right epsilon critical l)
  let ?A = "close_difference T left right"
  let ?B = "close_tolerance T left right epsilon"
  from assms(1) have crit: "critical = True"
    unfolding Close by (simp only: is_critical.simps simp_thms)
  from assms(2) have "check_fails T (Binary_op ?A ?B Op_lt True l) (store s)"
    unfolding Close check_fails_Close crit .
  from step_critical_fails_Binary_op [OF this] show ?thesis
    unfolding Close step.simps UTEST_EVALUATE_CLOSE_def UTEST_EVALUATE_LESS_def crit .
qed (use assms in \<open>auto simp: macro_defs Let_def
       split: prod.splits sum.splits exception_status.splits\<close>)

text \<open>A summary line has no bracket in it; every diagnostic of a failed check has one.\<close>

lemma show_nat_digits: "set (show_nat n) \<subseteq> set ''0123456789''"
proof (induction n rule: show_nat.induct)
  case (1 n)
  have d: "\<And>k. k < 10 \<Longrightarrow> ''0123456789'' ! k \<in> set ''0123456789''"
    by (rule nth_mem) simp
  show ?case
  proof (cases "n < 10")
    case True
    then show ?thesis using d [of n] by (subst show_nat.simps) simp
  next
    case False
    then show ?thesis using 1 d [of "n mod 10"] by (subst show_nat.simps) simp
  qed
qed

lemma show_nat_no_bracket: "CHR ''['' \<notin> set (show_nat n)"
  using show_nat_digits [of n] by auto

lemma summary_no_bracket: "CHR ''['' \<notin> set (last (cout (state_of (UTEST_END_MODULE s))))"
  by (simp add: UTEST_END_MODULE_def show_nat_no_bracket)

text \<open>
  Claim C3. Let the statements \<open>pre\<close> of a module body run through, and let the next
  statement \<open>c\<close> be a critical check that fails. Then the process ends with \<open>EXIT_FAILURE\<close> in
  the very state in which \<open>c\<close> leaves it, whatever statements \<open>post\<close> follow \<open>c\<close>: none of them
  runs, the handlers of \<^verbatim>\<open>main\<close> are not entered, \<open>c\<close> is the last check counted, and the
  only line printed after those of \<open>pre\<close> is the diagnostic of \<open>c\<close>, which is not a line that
  \<^verbatim>\<open>UTEST_END_MODULE\<close> prints.
\<close>

theorem critical_failure_terminates:
  assumes "exec T pre (module_start name u) = Continue s1"
    and "is_critical c"
    and "check_fails T c (store s1)"
  shows "utest_main name T (pre @ c # post) u = Exit EXIT_FAILURE (state_of (step T c s1)) \<and>
         utest_n_checks (state_of (step T c s1)) = utest_n_checks s1 + 1 \<and>
         utest_n_failures (state_of (step T c s1)) = utest_n_failures s1 + 1 \<and>
         (\<exists>line. cout (state_of (step T c s1)) = cout s1 @ [line] \<and>
            (\<forall>s' :: 's utest. last (cout (state_of (UTEST_END_MODULE s'))) \<noteq> line))"
proof -
  from step_critical_fails [OF assms(2,3)]
  obtain sF line where st: "step T c s1 = Exit EXIT_FAILURE sF"
    and out: "cout sF = cout s1 @ [line]" and br: "CHR ''['' \<in> set line"
    by auto
  have chk: "is_check c" using assms(2) by (cases c) simp_all
  have "exec T (pre @ c # post) (module_start name u) = Exit EXIT_FAILURE sF"
    using assms(1) st by (simp add: exec_append)
  then have main: "utest_main name T (pre @ c # post) u = Exit EXIT_FAILURE sF"
    by (simp add: utest_main_def utest_try_def UTEST_BEGIN_MODULE_def module_start_def)
  have "\<forall>s' :: 's utest. last (cout (state_of (UTEST_END_MODULE s'))) \<noteq> line"
    using br summary_no_bracket by metis
  with main st out step_check [OF chk, of T s1] assms(3) show ?thesis
    by simp
qed

text \<open>
  A critical check written after \<^verbatim>\<open>if (cond)\<close> without braces ends the process when it
  fails, whatever the condition is: the condition only decides whether the check is counted.
\<close>

lemma unbraced_critical_check_exits:
  "exec T (If_then (pure_arg txc b) (Evaluate (pure_arg txf False) True l) # post) s =
     Exit EXIT_FAILURE
       (UTEST_HANDLE_FAILURE l ('']: check {'' @ txf @ ''} failed!'')
          (s\<lparr>utest_n_checks := utest_n_checks s + (if b then 1 else 0)\<rparr>))"
  by (simp add: UTEST_EVALUATE_stmts_def cxx_if_def UTEST_HANDLE_CRITICAL_def pure_arg_def
      Let_def)

text \<open>
  \<^verbatim>\<open>UTEST_REQUIRE(false)\<close> after a case label, followed by a check that would fail: the
  process ends with one check counted and one diagnostic printed.
\<close>

theorem critical_failure_terminates_witness:
  "exec int_type [Case ''c''] (module_start ''m'' ()) =
     Continue \<lparr>utest_case_name = ''c'', utest_module_name = ''m'', utest_n_cases = 1,
               utest_n_checks = 0, utest_n_failures = 0,
               cout = [''running test case [m/c] ...''], store = ()\<rparr> \<and>
   utest_main ''m'' int_type
     ([Case ''c''] @ Evaluate (pure_arg ''false'' False) True (at_line 4) #
      [Binary_op (pure_arg ''2+2'' 4) (pure_arg ''5'' 5) Op_eq False (at_line 5)]) () =
     Exit EXIT_FAILURE
       \<lparr>utest_case_name = ''c'', utest_module_name = ''m'', utest_n_cases = 1,
        utest_n_checks = 1, utest_n_failures = 1,
        cout = [''running test case [m/c] ...'', ''test.cpp:4: [m/c]: check {false} failed!''],
        store = ()\<rparr>"
proof -
  let ?s1 = "\<lparr>utest_case_name = ''c'', utest_module_name = ''m'', utest_n_cases = 1,
              utest_n_checks = 0, utest_n_failures = 0,
              cout = [''running test case [m/c] ...''], store = ()\<rparr>"
  let ?c = "Evaluate (pure_arg ''false'' False) True (at_line 4) :: (unit, int) stmt"
  have h1: "exec int_type [Case ''c''] (module_start ''m'' ()) = Continue ?s1"
    by (simp add: module_start_def utest_init_def macro_defs)
  have h2: "is_critical ?c"
    by simp
  have h3: "check_fails int_type ?c (store ?s1)"
    by (simp add: pure_arg_def)
  have st: "state_of (step int_type ?c ?s1) =
      \<lparr>utest_case_name = ''c'', utest_module_name = ''m'', utest_n_cases = 1,
       utest_n_checks = 1, utest_n_failures = 1,
       cout = [''running test case [m/c] ...'', ''test.cpp:4: [m/c]: check {false} failed!''],
       store = ()\<rparr>"
    by (simp add: pure_arg_def at_line_def macro_defs show_nat.simps)
  from critical_failure_terminates [OF h1 h2 h3,
      of "[Binary_op (pure_arg ''2+2'' 4) (pure_arg ''5'' 5) Op_eq False (at_line 5)]"]
  have r: "utest_main ''m'' int_type
      ([Case ''c''] @ ?c #
       [Binary_op (pure_arg ''2+2'' 4) (pure_arg ''5'' 5) Op_eq False (at_line 5)]) () =
      Exit EXIT_FAILURE (state_of (step int_type ?c ?s1))"
    by (rule conjunct1)
  show ?thesis
    using h1 r unfolding st by (rule conjI)
qed

subsection \<open>Classifying exceptions\<close>

text \<open>
  Claim C4. \<open>check_throw\<close> always returns (it never throws); the store it leaves is the
  store the unit of work leaves when run once; and the value returned is \<open>none\<close> exactly when
  the work returns, \<open>expected\<close> exactly when it throws an object of the designated class or
  of a class derived from it, and \<open>unexpected\<close> exactly when it throws any other object.
\<close>

theorem check_throw_classifies:
  "(\<exists>st. fst (check_throw texception op u) = Inr st) \<and>
   snd (check_throw texception op u) = snd (op u) \<and>
   (fst (check_throw texception op u) = Inr none \<longleftrightarrow> (\<exists>v. fst (op u) = Inr v)) \<and>
   (fst (check_throw texception op u) = Inr expected \<longleftrightarrow>
      (\<exists>e. fst (op u) = Inl e \<and> texception \<in> set (ex_types e))) \<and>
   (fst (check_throw texception op u) = Inr unexpected \<longleftrightarrow>
      (\<exists>e. fst (op u) = Inl e \<and> texception \<notin> set (ex_types e)))"
  by (auto simp: check_throw_def split: prod.splits sum.splits)

theorem check_throw_classifies_witness:
  "fst (check_throw ''std::runtime_error''
         (arg_eval (throwing_arg ''f()'' [''std::runtime_error'', ''std::exception''] ''bad''
            :: (unit, int) arg)) ()) = Inr expected \<and>
   fst (check_throw ''std::runtime_error''
         (arg_eval (throwing_arg ''f()'' [''std::logic_error'', ''std::exception''] ''bad''
            :: (unit, int) arg)) ()) = Inr unexpected \<and>
   fst (check_throw ''std::runtime_error'' (arg_eval (pure_arg ''g()'' (0::int))) ()) = Inr none"
  using check_throw_classifies [of "''std::runtime_error''"
      "arg_eval (throwing_arg ''f()'' [''std::runtime_error'', ''std::exception''] ''bad''
         :: (unit, int) arg)" "()"]
    check_throw_classifies [of "''std::runtime_error''"
      "arg_eval (throwing_arg ''f()'' [''std::logic_error'', ''std::exception''] ''bad''
         :: (unit, int) arg)" "()"]
    check_throw_classifies [of "''std::runtime_error''" "arg_eval (pure_arg ''g()'' (0::int))" "()"]
  by (simp add: throwing_arg_def pure_arg_def)

subsection \<open>Exception checks\<close>

text \<open>
  Claim C5. \<^verbatim>\<open>UTEST_THROW\<close> passes exactly when \<open>check_throw\<close> returns \<open>expected\<close>. On
  \<open>none\<close> it fails with the line ending in \<^verbatim>\<open>does not throw!\<close>, on \<open>unexpected\<close> with the line
  ending in \<^verbatim>\<open>does not throw {exception}!\<close>, and the two lines differ. \<^verbatim>\<open>UTEST_NOTHROW\<close>
  passes exactly when the call returns, which is the outcome \<open>none\<close> whatever class \<open>kind\<close>
  the classifier is given; on every other outcome it fails with the line ending in
  \<^verbatim>\<open>throws!\<close>.
\<close>

theorem exception_checks_outcome:
  "(passed s (UTEST_THROW call exception critical l s) \<longleftrightarrow>
      fst (check_throw exception (lambda_void call) (store s)) = Inr expected) \<and>
   (fst (check_throw exception (lambda_void call) (store s)) = Inr none \<longrightarrow>
      failed_with s (UTEST_THROW call exception critical l s)
        (loc_file l @ '':'' @ show_nat (loc_line l) @ '': ['' @ utest_module_name s @ ''/'' @
         utest_case_name s @ '']: call {'' @ arg_text call @ ''} does not throw!'')) \<and>
   (fst (check_throw exception (lambda_void call) (store s)) = Inr unexpected \<longrightarrow>
      failed_with s (UTEST_THROW call exception critical l s)
        (loc_file l @ '':'' @ show_nat (loc_line l) @ '': ['' @ utest_module_name s @ ''/'' @
         utest_case_name s @ '']: call {'' @ arg_text call @ ''} does not throw {'' @
         exception @ ''}!'')) \<and>
   loc_file l @ '':'' @ show_nat (loc_line l) @ '': ['' @ utest_module_name s @ ''/'' @
     utest_case_name s @ '']: call {'' @ arg_text call @ ''} does not throw!'' \<noteq>
   loc_file l @ '':'' @ show_nat (loc_line l) @ '': ['' @ utest_module_name s @ ''/'' @
     utest_case_name s @ '']: call {'' @ arg_text call @ ''} does not throw {'' @
     exception @ ''}!'' \<and>
   (passed s (UTEST_NOTHROW call critical l s) \<longleftrightarrow>
      fst (check_throw kind (lambda_void call) (store s)) = Inr none) \<and>
   (fst (check_throw kind (lambda_void call) (store s)) \<noteq> Inr none \<longrightarrow>
      failed_with s (UTEST_NOTHROW call critical l s)
        (loc_file l @ '':'' @ show_nat (loc_line l) @ '': ['' @ utest_module_name s @ ''/'' @
         utest_case_name s @ '']: call {'' @ arg_text call @ ''} throws!''))"
  by (auto simp: passed_def failed_with_def macro_defs check_throw_def lambda_void_def Let_def
      split: prod.splits sum.splits if_splits)

text \<open>
  A call that returns fails \<^verbatim>\<open>UTEST_CHECK_THROW\<close>; a call that throws a
  \<^verbatim>\<open>std::logic_error\<close> where a \<^verbatim>\<open>std::runtime_error\<close> is expected fails it with the other
  line, and fails \<^verbatim>\<open>UTEST_CHECK_NOTHROW\<close>.
\<close>

theorem exception_checks_outcome_witness:
  "fst (check_throw ''std::runtime_error'' (lambda_void (pure_arg ''g()'' (0::int)))
      (store (module_start ''m'' ()))) = Inr none \<and>
   failed_with (module_start ''m'' ())
     (UTEST_CHECK_THROW (pure_arg ''g()'' (0::int)) ''std::runtime_error'' (at_line 9)
        (module_start ''m'' ()))
     ''test.cpp:9: [m/]: call {g()} does not throw!'' \<and>
   fst (check_throw ''std::runtime_error''
      (lambda_void (throwing_arg ''f()'' [''std::logic_error'', ''std::exception''] ''bad''
         :: (unit, int) arg))
      (store (module_start ''m'' ()))) = Inr unexpected \<and>
   failed_with (module_start ''m'' ())
     (UTEST_CHECK_THROW
        (throwing_arg ''f()'' [''std::logic_error'', ''std::exception''] ''bad''
           :: (unit, int) arg)
        ''std::runtime_error'' (at_line 9) (module_start ''m'' ()))
     ''test.cpp:9: [m/]: call {f()} does not throw {std::runtime_error}!'' \<and>
   failed_with (module_start ''m'' ())
     (UTEST_CHECK_NOTHROW
        (throwing_arg ''f()'' [''std::logic_error'', ''std::exception''] ''bad''
           :: (unit, int) arg)
        (at_line 9) (module_start ''m'' ()))
     ''test.cpp:9: [m/]: call {f()} throws!''"
proof -
  let ?s = "module_start ''m'' () :: unit utest"
  let ?g = "pure_arg ''g()'' (0::int) :: (unit, int) arg"
  let ?f = "throwing_arg ''f()'' [''std::logic_error'', ''std::exception''] ''bad''
              :: (unit, int) arg"
  have names: "utest_module_name ?s = ''m''" "utest_case_name ?s = []"
    by (simp_all add: module_start_def utest_init_def)
  have place: "loc_file (at_line 9) = ''test.cpp''" "show_nat (loc_line (at_line 9)) = ''9''"
    by (simp_all add: at_line_def show_nat.simps)
  have texts: "arg_text ?g = ''g()''" "arg_text ?f = ''f()''"
    by (simp_all add: pure_arg_def throwing_arg_def)
  have h1: "fst (check_throw ''std::runtime_error'' (lambda_void ?g) (store ?s)) = Inr none"
    by (simp add: check_throw_def lambda_void_def pure_arg_def)
  have h2: "fst (check_throw ''std::runtime_error'' (lambda_void ?f) (store ?s)) = Inr unexpected"
    by (simp add: check_throw_def lambda_void_def throwing_arg_def)
  have h3: "fst (check_throw ''std::runtime_error'' (lambda_void ?f) (store ?s)) \<noteq> Inr none"
    using h2 by simp
  from exception_checks_outcome [of ?s ?g "''std::runtime_error''" False "at_line 9"] h1
  have a: "failed_with ?s (UTEST_CHECK_THROW ?g ''std::runtime_error'' (at_line 9) ?s)
      ''test.cpp:9: [m/]: call {g()} does not throw!''"
    unfolding UTEST_CHECK_THROW_def names place texts by simp
  from exception_checks_outcome [of ?s ?f "''std::runtime_error''" False "at_line 9"
      "''std::runtime_error''"] h2 h3
  have b: "failed_with ?s (UTEST_CHECK_THROW ?f ''std::runtime_error'' (at_line 9) ?s)
      ''test.cpp:9: [m/]: call {f()} does not throw {std::runtime_error}!''"
    and c: "failed_with ?s (UTEST_CHECK_NOTHROW ?f (at_line 9) ?s)
      ''test.cpp:9: [m/]: call {f()} throws!''"
    unfolding UTEST_CHECK_THROW_def UTEST_CHECK_NOTHROW_def names place texts by simp_all
  from h1 a h2 b c show ?thesis by blast
qed

subsection \<open>Relational and approximate checks\<close>

text \<open>
  Claim C9. When the two operands of a relational check return, the check runs the left
  operand once on the store it finds and the right operand once on the store the left one
  leaves; the store after the check is the one the right operand leaves, whether the relation
  holds or not. If it holds, only \<open>utest_n_checks\<close> changes. If it does not, a failure is
  counted and the line printed shows the text of the check, the two values obtained and the
  operator between them, before the rule for critical checks is applied.
\<close>

theorem binary_op_operands_once:
  assumes "arg_eval left (store s) = (Inr a, u1)"
    and "arg_eval right u1 = (Inr b, u2)"
  shows "UTEST_EVALUATE_BINARY_OP T left right op critical l s =
     (if apply_op T op a b then
        Continue (s\<lparr>utest_n_checks := utest_n_checks s + 1, store := u2\<rparr>)
      else
        UTEST_HANDLE_CRITICAL critical
          (s\<lparr>utest_n_checks := utest_n_checks s + 1, store := u2,
             utest_n_failures := utest_n_failures s + 1,
             cout := cout s @
               [loc_file l @ '':'' @ show_nat (loc_line l) @ '': ['' @ utest_module_name s @
                ''/'' @ utest_case_name s @ '']: check {'' @ arg_text left @ '' '' @
                op_text op @ '' '' @ arg_text right @ ''} failed {'' @ t_put T a @ '' '' @
                op_text op @ '' '' @ t_put T b @ ''}!'']\<rparr>))"
  using assms by (simp add: macro_defs Let_def)

text \<open>
  \<^verbatim>\<open>UTEST_CHECK_EQUAL(next_left(), next_right())\<close> with the values 4 and 5: each counter of
  the store goes from 0 to 1, and the line shows \<^verbatim>\<open>4 == 5\<close>.
\<close>

theorem binary_op_operands_once_witness:
  "arg_eval (next_left 4) (store (module_start ''m'' (0, 0))) = (Inr (4::int), (1, 0)) \<and>
   arg_eval (next_right 5) (1, 0) = (Inr (5::int), (1, 1)) \<and>
   UTEST_CHECK_EQUAL int_type (next_left 4) (next_right 5) (at_line 7)
     (module_start ''m'' (0, 0)) =
     Continue \<lparr>utest_case_name = [], utest_module_name = ''m'', utest_n_cases = 0,
               utest_n_checks = 1, utest_n_failures = 1,
               cout = [''test.cpp:7: [m/]: check {next_left() == next_right()} failed {4 == 5}!''],
               store = (1, 1)\<rparr>"
proof -
  let ?s = "module_start ''m'' (0, 0) :: (nat \<times> nat) utest"
  have h1: "arg_eval (next_left 4) (store ?s) = (Inr (4::int), (1, 0))"
    by (simp add: next_left_def module_start_def utest_init_def)
  have h2: "arg_eval (next_right 5) (1, 0) = (Inr (5::int), (1, 1))"
    by (simp add: next_right_def)
  from binary_op_operands_once [OF h1 h2, of int_type Op_eq False "at_line 7"]
  have "UTEST_CHECK_EQUAL int_type (next_left 4) (next_right 5) (at_line 7) ?s =
     Continue \<lparr>utest_case_name = [], utest_module_name = ''m'', utest_n_cases = 0,
               utest_n_checks = 1, utest_n_failures = 1,
               cout = [''test.cpp:7: [m/]: check {next_left() == next_right()} failed {4 == 5}!''],
               store = (1, 1)\<rparr>"
    by (simp add: UTEST_CHECK_EQUAL_def UTEST_EVALUATE_EQUAL_def UTEST_HANDLE_CRITICAL_def
        module_start_def utest_init_def int_type_def show_int_def at_line_def next_left_def
        next_right_def show_nat.simps)
  with h1 h2 show ?thesis by blast
qed

text \<open>
  The approximate check is the relational check with the operator \<^verbatim>\<open><\<close> on the two
  expressions built from its arguments.
\<close>

lemma close_is_less:
  "UTEST_EVALUATE_CLOSE T left right epsilon critical =
     UTEST_EVALUATE_BINARY_OP T (close_difference T left right)
       (close_tolerance T left right epsilon) Op_lt critical"
  by (simp add: UTEST_EVALUATE_CLOSE_def UTEST_EVALUATE_LESS_def)

text \<open>
  For values \<open>left\<close> and \<open>right\<close> and a tolerance that is one operand, the check passes
  exactly when the absolute difference is less than the tolerance times one plus the two
  absolute values, all computed with the operations of the operand type; with exact
  arithmetic this is \<open>\<bar>q - r\<bar> < eps * (1 + \<bar>q\<bar> + \<bar>r\<bar>)\<close>.
\<close>

lemma close_tight_passes_iff:
  "passed s (UTEST_EVALUATE_CLOSE T (pure_arg txl left) (pure_arg txr right)
       (Tight (pure_arg txe epsilon)) critical l s) \<longleftrightarrow>
     t_lt T (t_fabs T (t_sub T left right))
       (t_mul T epsilon (t_add T (t_add T (t_one T) (t_fabs T left)) (t_fabs T right)))"
  by (simp add: passed_def macro_defs cxx_defs pure_arg_def Let_def)

lemma close_tight_passes_iff_real:
  "passed s (UTEST_EVALUATE_CLOSE real_type (pure_arg txl q) (pure_arg txr r)
       (Tight (pure_arg txe eps)) critical l s) \<longleftrightarrow>
     \<bar>q - r\<bar> < eps * (1 + \<bar>q\<bar> + \<bar>r\<bar>)"
  by (simp add: close_tight_passes_iff real_type_def)

text \<open>
  \<^verbatim>\<open>UTEST_CHECK_CLOSE(1.0, 1.0 + 1e-10, 1e-6)\<close> passes and
  \<^verbatim>\<open>UTEST_CHECK_CLOSE(1.0, 1.1, 1e-6)\<close> does not.
\<close>

lemma close_examples:
  "passed (module_start ''m'' ())
     (UTEST_CHECK_CLOSE real_type (pure_arg ''1.0'' 1) (pure_arg ''1.0 + 1e-10'' (1 + 1 / 10 ^ 10))
        (Tight (pure_arg ''1e-6'' (1 / 10 ^ 6))) (at_line 5) (module_start ''m'' ())) \<and>
   \<not> passed (module_start ''m'' ())
     (UTEST_CHECK_CLOSE real_type (pure_arg ''1.0'' 1) (pure_arg ''1.1'' (11 / 10))
        (Tight (pure_arg ''1e-6'' (1 / 10 ^ 6))) (at_line 5) (module_start ''m'' ()))"
  unfolding UTEST_CHECK_CLOSE_def close_tight_passes_iff_real by simp

text \<open>
  For a tolerance written as a sum or a difference the product takes its last term only:
  the bound is \<open>f a (b * (1 + \<bar>left\<bar> + \<bar>right\<bar>))\<close>, not the value of the tolerance times
  the scale.
\<close>

lemma close_loose_passes_iff:
  "passed s (UTEST_EVALUATE_CLOSE T (pure_arg txl left) (pure_arg txr right)
       (Loose (pure_arg txa a) name f (pure_arg txb b)) critical l s) \<longleftrightarrow>
     t_lt T (t_fabs T (t_sub T left right))
       (f a (t_mul T b (t_add T (t_add T (t_one T) (t_fabs T left)) (t_fabs T right))))"
  by (simp add: passed_def macro_defs cxx_defs pure_arg_def Let_def)

text \<open>
  Claim C6 at \<^verbatim>\<open>UTEST_CHECK_CLOSE(0.0, 0.5, 2.0 - 1.0)\<close>. The tolerance has the value 1 and
  \<open>\<bar>0 - 0.5\<bar> < 1 * (1 + \<bar>0\<bar> + \<bar>0.5\<bar>)\<close> holds, so the check should pass. The expansion is
  \<^verbatim>\<open>2.0 - 1.0 * (1 + std::fabs((0.0)) + std::fabs((0.5)))\<close>, which is 0.5, and the check
  fails.
\<close>

theorem close_epsilon_not_parenthesised:
  "fst (arg_eval (bare_value (Loose (pure_arg ''2.0'' 2) ''-'' (\<lambda>a b. a - b) (pure_arg ''1.0'' 1)))
     ()) = Inr (1 :: real) \<and>
   \<bar>0 - 1 / 2\<bar> < (1 :: real) * (1 + \<bar>0\<bar> + \<bar>1 / 2\<bar>) \<and>
   UTEST_CHECK_CLOSE real_type (pure_arg ''0.0'' 0) (pure_arg ''0.5'' (1 / 2))
     (Loose (pure_arg ''2.0'' 2) ''-'' (\<lambda>a b. a - b) (pure_arg ''1.0'' 1)) (at_line 5)
     (module_start ''m'' ()) =
     Continue
       \<lparr>utest_case_name = [], utest_module_name = ''m'', utest_n_cases = 0, utest_n_checks = 1,
        utest_n_failures = 1,
        cout = [''test.cpp:5: [m/]: check {std::fabs((0.0) - (0.5)) < 2.0 - 1.0 * (1 + std::fabs((0.0)) + std::fabs((0.5)))} failed {0.500000000000 < 0.500000000000}!''],
        store = ()\<rparr>"
proof -
  have half: "show_fixed12 (1 / 2) = ''0.500000000000''"
    unfolding show_fixed12_def by (simp add: round_def) (simp add: show_nat.simps)
  have five: "show_nat 5 = ''5''"
    by (simp add: show_nat.simps)
  show ?thesis
    by (simp add: UTEST_CHECK_CLOSE_def macro_defs cxx_defs pure_arg_def at_line_def
        module_start_def utest_init_def real_type_def half five Let_def)
qed

text \<open>
  Claim C10. When the operands return, the approximate check runs them in the order left,
  right, epsilon, left, right, each on the store its predecessor leaves: the difference is
  taken between the values of the first evaluations of left and right, the scale is built
  from the values of their second evaluations, and the store after the check is the one the
  second evaluation of right leaves. Each of the two operands is thus evaluated twice.
\<close>

theorem close_operands_twice:
  assumes "arg_eval left (store s) = (Inr l1, u1)"
    and "arg_eval right u1 = (Inr r1, u2)"
    and "arg_eval (bare_value epsilon) u2 = (Inr eps, u3)"
    and "arg_eval left u3 = (Inr l2, u4)"
    and "arg_eval right u4 = (Inr r2, u5)"
  shows "arg_eval (close_difference T left right) (store s) =
           (Inr (t_fabs T (t_sub T l1 r1)), u2) \<and>
         arg_eval (close_scale T left right) u3 =
           (Inr (t_add T (t_add T (t_one T) (t_fabs T l2)) (t_fabs T r2)), u5) \<and>
         store (state_of (UTEST_EVALUATE_CLOSE T left right epsilon critical l s)) = u5"
  using assms
  by (cases epsilon)
    (auto simp: macro_defs cxx_defs Let_def split: prod.splits sum.splits)

text \<open>
  \<^verbatim>\<open>UTEST_CHECK_CLOSE(next_left(), next_right(), 1e-6)\<close>: each counter of the store goes
  from 0 to 2, where \<^verbatim>\<open>UTEST_CHECK_EQUAL\<close> above leaves it at 1.
\<close>

theorem close_operands_twice_witness:
  "store (state_of
     (UTEST_CHECK_CLOSE real_type (next_left 1) (next_right 1)
        (Tight (pure_arg ''1e-6'' (1 / 10 ^ 6))) (at_line 8) (module_start ''m'' (0, 0)))) =
   (2, 2)"
proof -
  let ?s = "module_start ''m'' (0, 0) :: (nat \<times> nat) utest"
  let ?e = "Tight (pure_arg ''1e-6'' (1 / 10 ^ 6)) :: (nat \<times> nat, real) bare_arg"
  have h1: "arg_eval (next_left 1) (store ?s) = (Inr (1::real), (1, 0))"
    by (simp add: next_left_def module_start_def utest_init_def)
  have h2: "arg_eval (next_right 1) (1, 0) = (Inr (1::real), (1, 1))"
    by (simp add: next_right_def)
  have h3: "arg_eval (bare_value ?e) (1, 1) = (Inr (1 / 10 ^ 6), (1, 1))"
    by (simp add: pure_arg_def)
  have h4: "arg_eval (next_left 1) (1, 1) = (Inr (1::real), (2, 1))"
    by (simp add: next_left_def)
  have h5: "arg_eval (next_right 1) (2, 1) = (Inr (1::real), (2, 2))"
    by (simp add: next_right_def)
  from close_operands_twice [OF h1 h2 h3 h4 h5, of real_type False "at_line 8"]
  show ?thesis by (simp add: UTEST_CHECK_CLOSE_def)
qed

subsection \<open>The end of a module\<close>

text \<open>
  Claim C7, as amended. If an exception leaves the body of the module, the handlers that
  \<^verbatim>\<open>UTEST_END_MODULE\<close> closes \<^verbatim>\<open>main\<close> with catch it: the process ends with \<open>EXIT_FAILURE\<close>,
  nothing is thrown further, and one line is printed. For an object of a class derived from
  \<^verbatim>\<open>std::exception\<close> the line holds its \<^verbatim>\<open>what()\<close> text; for any other object the line is a
  fixed text that says nothing about the object.
\<close>

theorem uncaught_exception_reported:
  assumes "exec T body (module_start name u) = Raise e s1"
  shows "utest_main name T body u =
     Exit EXIT_FAILURE (s1\<lparr>cout := cout s1 @
       [if ''std::exception'' \<in> set (ex_types e)
        then '' failed with uncaught exception <'' @ ex_what e @ ''>!''
        else '' failed with uncaught unknown exception!'']\<rparr>)"
  using assms
  by (simp add: utest_main_def utest_try_def UTEST_BEGIN_MODULE_def module_start_def)

text \<open>A \<^verbatim>\<open>std::runtime_error("boom")\<close> thrown by the operand of a check.\<close>

theorem uncaught_exception_reported_witness:
  "exec int_type
     [Evaluate (throwing_arg ''f()'' [''std::runtime_error'', ''std::exception''] ''boom'')
        False (at_line 2)] (module_start ''m'' ()) =
     Raise (Exn [''std::runtime_error'', ''std::exception''] ''boom'')
       ((module_start ''m'' ())\<lparr>utest_n_checks := 1\<rparr>) \<and>
   utest_main ''m'' int_type
     [Evaluate (throwing_arg ''f()'' [''std::runtime_error'', ''std::exception''] ''boom'')
        False (at_line 2)] () =
     Exit EXIT_FAILURE
       \<lparr>utest_case_name = [], utest_module_name = ''m'', utest_n_cases = 0, utest_n_checks = 1,
        utest_n_failures = 0, cout = ['' failed with uncaught exception <boom>!''],
        store = ()\<rparr>"
proof -
  have h: "exec int_type
     [Evaluate (throwing_arg ''f()'' [''std::runtime_error'', ''std::exception''] ''boom'')
        False (at_line 2)] (module_start ''m'' ()) =
     Raise (Exn [''std::runtime_error'', ''std::exception''] ''boom'')
       ((module_start ''m'' ())\<lparr>utest_n_checks := 1\<rparr>)"
    by (simp add: UTEST_EVALUATE_def throwing_arg_def module_start_def utest_init_def)
  from uncaught_exception_reported [OF h] h show ?thesis
    by (simp add: module_start_def utest_init_def)
qed

text \<open>
  Claim C7 as stated fails for an object that is not a \<^verbatim>\<open>std::exception\<close>: for
  \<^verbatim>\<open>throw std::string("boom")\<close> the only line printed does not contain the text.
\<close>

theorem uncaught_exception_counterexample:
  "utest_main ''m'' int_type
     [Code (arg_eval (throwing_arg ''throw std::string(boom)'' [''std::string''] ''boom''))] () =
   Exit EXIT_FAILURE
     \<lparr>utest_case_name = [], utest_module_name = ''m'', utest_n_cases = 0, utest_n_checks = 0,
      utest_n_failures = 0, cout = ['' failed with uncaught unknown exception!''], store = ()\<rparr> \<and>
   \<not> sublist ''boom'' '' failed with uncaught unknown exception!''"
  by (simp add: example_defs sublist_Cons_right)

text \<open>
  Claim C8 at a module with exactly one check: the summary line says \<^verbatim>\<open>1 checks\<close>, for a
  passing check as for a failing one; the singular is printed for a module without checks.
\<close>

theorem summary_plural_one_check:
  "cout (state_of (utest_main ''m'' int_type
      [Case ''c'', Evaluate (pure_arg ''true'' True) False (at_line 3)] ())) =
     [''running test case [m/c] ...'', ''  no errors detected in 1 checks.''] \<and>
   cout (state_of (utest_main ''m'' int_type
      [Case ''c'', Evaluate (pure_arg ''false'' False) False (at_line 3)] ())) =
     [''running test case [m/c] ...'', ''test.cpp:3: [m/c]: check {false} failed!'',
      ''  failed with 1 errors in 1 checks!''] \<and>
   cout (state_of (utest_main ''m'' int_type [Case ''c''] ())) =
     [''running test case [m/c] ...'', ''  no errors detected in 0 check.'']"
  by (simp add: example_defs macro_defs show_nat.simps)

end
